theory Spec2Isabelle
  imports Complex_Main "HOL-Library.Multiset" "HOL-Library.Char_ord" "HOL-Library.List_Lexorder"
    "HOL-Library.Product_Lexorder"
begin

section \<open>Data frames\<close>

text \<open>
  The three analytics modules work on pandas data frames read from one CSV file.
  A cell is a number, a text, or missing (pandas' NaN); a row maps column names to cells;
  a frame is its column index together with its rows. Numbers are exact reals: rounding,
  overflow and the other effects of binary floating point are outside this development.
  A text cell stands for text that does not parse as a number.
\<close>

datatype cell = Null | Num real | Str string

type_synonym row = "(string \<times> cell) list"

record dataframe =
  columns :: "string list"
  rows :: "row list"

text \<open>
  The exceptions of the program. A KeyError carries the labels that were not found, a
  ValueError its message and the names the message lists.
\<close>

datatype py_error =
  KeyError "string list" | TypeError | ValueError string "string list" | IntCastingNaNError

definition cell_of :: "row \<Rightarrow> string \<Rightarrow> cell" where
  "cell_of r c = (case map_of r c of None \<Rightarrow> Null | Some v \<Rightarrow> v)"

definition is_text :: "cell \<Rightarrow> bool" where
  "is_text v = (case v of Str _ \<Rightarrow> True | _ \<Rightarrow> False)"

text \<open>\<^verbatim>\<open>df[mask]\<close>: the rows where the mask holds; the column index is unchanged.\<close>

definition select_rows :: "(row \<Rightarrow> bool) \<Rightarrow> dataframe \<Rightarrow> dataframe" where
  "select_rows p df = df\<lparr>rows := filter p (rows df)\<rparr>"

text \<open>\<^verbatim>\<open>series.isin(names)\<close> for a list of strings: a number or a missing cell is in no such list.\<close>

definition isin :: "cell \<Rightarrow> string list \<Rightarrow> bool" where
  "isin v names = (case v of Str s \<Rightarrow> s \<in> set names | _ \<Rightarrow> False)"

text \<open>
  \<^verbatim>\<open>if names: df = df[df[c].isin(names)]\<close>. \<^verbatim>\<open>None\<close> and the empty list are both falsy;
  \<^verbatim>\<open>df[c]\<close> raises KeyError when the frame has no column \<open>c\<close>.
\<close>

definition filter_isin :: "string \<Rightarrow> string list option \<Rightarrow> dataframe \<Rightarrow> py_error + dataframe" where
  "filter_isin c sel df =
     (case sel of
        None \<Rightarrow> Inr df
      | Some names \<Rightarrow>
          if names = [] then Inr df
          else if c \<notin> set (columns df) then Inl (KeyError [c])
          else Inr (select_rows (\<lambda>r. isin (cell_of r c) names) df))"

text \<open>
  A comparison of a column with an integer: KeyError without the column, TypeError when the
  column holds text, and False on a missing cell.
\<close>

definition compare_column :: "string \<Rightarrow> (real \<Rightarrow> bool) \<Rightarrow> dataframe \<Rightarrow> py_error + (row \<Rightarrow> bool)" where
  "compare_column c p df =
     (if c \<notin> set (columns df) then Inl (KeyError [c])
      else if list_ex (\<lambda>r. is_text (cell_of r c)) (rows df) then Inl TypeError
      else Inr (\<lambda>r. case cell_of r c of Num x \<Rightarrow> p x | _ \<Rightarrow> False))"

section \<open>UniversityComparisonAnalytics: the loader\<close>

definition MIN_RECORDS :: nat where
  "MIN_RECORDS = 40"

text \<open>\<^verbatim>\<open>df[(df['year'] >= year_start) & (df['year'] <= year_end)]\<close>\<close>

definition filter_year_range :: "int \<Rightarrow> int \<Rightarrow> dataframe \<Rightarrow> py_error + dataframe" where
  "filter_year_range year_start year_end df =
     (case compare_column ''year'' (\<lambda>x. real_of_int year_start \<le> x \<and> x \<le> real_of_int year_end) df of
        Inl e \<Rightarrow> Inl e
      | Inr keep \<Rightarrow> Inr (select_rows keep df))"

text \<open>
  \<^verbatim>\<open>df['university'].value_counts()\<close> counts the rows of each value and leaves missing cells
  out; \<open>value_count\<close> is the count of one value.
\<close>

definition value_count :: "string \<Rightarrow> dataframe \<Rightarrow> cell \<Rightarrow> nat" where
  "value_count c df v = length (filter (\<lambda>r. cell_of r c = v) (rows df))"

definition major_unis :: "dataframe \<Rightarrow> cell \<Rightarrow> bool" where
  "major_unis df v = (v \<noteq> Null \<and> MIN_RECORDS \<le> value_count ''university'' df v)"

definition filter_major :: "dataframe \<Rightarrow> py_error + dataframe" where
  "filter_major df =
     (if ''university'' \<notin> set (columns df) then Inl (KeyError [''university''])
      else Inr (select_rows (\<lambda>r. major_unis df (cell_of r ''university'')) df))"

definition load_data_uni ::
  "dataframe \<Rightarrow> int \<Rightarrow> int \<Rightarrow> string list option \<Rightarrow> string list option \<Rightarrow> py_error + dataframe" where
  "load_data_uni csv year_start year_end universities categories =
     (case filter_year_range year_start year_end csv of
        Inl e \<Rightarrow> Inl e
      | Inr df1 \<Rightarrow>
          (case filter_isin ''university'' universities df1 of
             Inl e \<Rightarrow> Inl e
           | Inr df2 \<Rightarrow>
               (case filter_isin ''course_category'' categories df2 of
                  Inl e \<Rightarrow> Inl e
                | Inr df3 \<Rightarrow> filter_major df3)))"

text \<open>The year- and category-filtered data: the loader's filters without the university list.\<close>

definition year_category_filtered ::
  "dataframe \<Rightarrow> int \<Rightarrow> int \<Rightarrow> string list option \<Rightarrow> py_error + dataframe" where
  "year_category_filtered csv year_start year_end categories =
     (case filter_year_range year_start year_end csv of
        Inl e \<Rightarrow> Inl e
      | Inr df1 \<Rightarrow> filter_isin ''course_category'' categories df1)"

text \<open>A frame for the loader: forty rows of one university and thirty-nine of another.\<close>

definition uni_row :: "string \<Rightarrow> row" where
  "uni_row u = [(''year'', Num 2020), (''university'', Str u), (''course_category'', Str ''Engineering'')]"

definition uni_example :: dataframe where
  "uni_example = \<lparr>columns = [''year'', ''university'', ''course_category''],
                   rows = replicate 40 (uni_row ''NUS'') @ replicate 39 (uni_row ''SIT'')\<rparr>"

section \<open>Floating-point results\<close>

text \<open>
  A computed float is a finite number, an infinity or NaN. Only the operations that can
  leave the finite numbers are modelled on this type: a statistic of no values, and the
  division of the z-score.
\<close>

datatype fval = Fin real | PInf | NInf | NaN

fun fsub :: "fval \<Rightarrow> fval \<Rightarrow> fval" where
  "fsub (Fin a) (Fin b) = Fin (a - b)"
| "fsub NaN _ = NaN"
| "fsub _ NaN = NaN"
| "fsub PInf PInf = NaN"
| "fsub NInf NInf = NaN"
| "fsub PInf _ = PInf"
| "fsub NInf _ = NInf"
| "fsub (Fin a) PInf = NInf"
| "fsub (Fin a) NInf = PInf"

text \<open>Division as numpy does it: a zero divisor gives NaN or an infinity, never an exception.\<close>

fun fdiv :: "fval \<Rightarrow> fval \<Rightarrow> fval" where
  "fdiv (Fin a) (Fin b) =
     (if b = 0 then (if a = 0 then NaN else if 0 < a then PInf else NInf) else Fin (a / b))"
| "fdiv NaN _ = NaN"
| "fdiv _ NaN = NaN"
| "fdiv (Fin a) PInf = Fin 0"
| "fdiv (Fin a) NInf = Fin 0"
| "fdiv PInf (Fin b) = (if 0 \<le> b then PInf else NInf)"
| "fdiv NInf (Fin b) = (if 0 \<le> b then NInf else PInf)"
| "fdiv PInf _ = NaN"
| "fdiv NInf _ = NaN"

text \<open>\<open>fless a b\<close> is \<^verbatim>\<open>a < b\<close> and \<open>fge a b\<close> is \<^verbatim>\<open>a >= b\<close>; both are False when a side is NaN.\<close>

fun fless :: "fval \<Rightarrow> fval \<Rightarrow> bool" where
  "fless (Fin a) (Fin b) = (a < b)"
| "fless NaN _ = False"
| "fless _ NaN = False"
| "fless NInf NInf = False"
| "fless NInf _ = True"
| "fless PInf _ = False"
| "fless (Fin a) PInf = True"
| "fless (Fin a) NInf = False"

fun fge :: "fval \<Rightarrow> fval \<Rightarrow> bool" where
  "fge NaN _ = False"
| "fge _ NaN = False"
| "fge a b = (\<not> fless a b)"

definition fillna :: "real \<Rightarrow> fval \<Rightarrow> fval" where
  "fillna d v = (case v of NaN \<Rightarrow> Fin d | _ \<Rightarrow> v)"

text \<open>\<^verbatim>\<open>np.mean(v)\<close> and \<^verbatim>\<open>np.std(v, ddof=0)\<close>; both are NaN for an array of no values.\<close>

definition np_mean :: "real list \<Rightarrow> fval" where
  "np_mean v = (if v = [] then NaN else Fin (sum_list v / real (length v)))"

definition np_std :: "real list \<Rightarrow> fval" where
  "np_std v =
     (if v = [] then NaN
      else let m = sum_list v / real (length v)
           in Fin (sqrt (sum_list (map (\<lambda>x. (x - m)\<^sup>2) v) / real (length v))))"

section \<open>RelativePerformanceIndexAnalytics\<close>

text \<open>\<^verbatim>\<open>df[df[c] >= bound]\<close> and its like: one comparison as the mask.\<close>

definition filter_compare :: "string \<Rightarrow> (real \<Rightarrow> bool) \<Rightarrow> dataframe \<Rightarrow> py_error + dataframe" where
  "filter_compare c p df =
     (case compare_column c p df of Inl e \<Rightarrow> Inl e | Inr keep \<Rightarrow> Inr (select_rows keep df))"

definition filter_year_start :: "int option \<Rightarrow> dataframe \<Rightarrow> py_error + dataframe" where
  "filter_year_start year_start df =
     (case year_start of
        None \<Rightarrow> Inr df
      | Some y \<Rightarrow> filter_compare ''year'' (\<lambda>x. real_of_int y \<le> x) df)"

definition filter_year_end :: "int option \<Rightarrow> dataframe \<Rightarrow> py_error + dataframe" where
  "filter_year_end year_end df =
     (case year_end of
        None \<Rightarrow> Inr df
      | Some y \<Rightarrow> filter_compare ''year'' (\<lambda>x. x \<le> real_of_int y) df)"

definition load_data_rpi ::
  "dataframe \<Rightarrow> int option \<Rightarrow> int option \<Rightarrow> string list option \<Rightarrow> string list option \<Rightarrow>
   string list option \<Rightarrow> py_error + dataframe" where
  "load_data_rpi csv year_start year_end universities categories courses =
     (case filter_year_start year_start csv of
        Inl e \<Rightarrow> Inl e
      | Inr df1 \<Rightarrow>
     (case filter_year_end year_end df1 of
        Inl e \<Rightarrow> Inl e
      | Inr df2 \<Rightarrow>
     (case filter_isin ''university'' universities df2 of
        Inl e \<Rightarrow> Inl e
      | Inr df3 \<Rightarrow>
     (case filter_isin ''course_category'' categories df3 of
        Inl e \<Rightarrow> Inl e
      | Inr df4 \<Rightarrow> filter_isin ''course'' courses df4))))"

text \<open>
  \<^verbatim>\<open>_weighted_mean_std(values, weights)\<close>: the weighted mean and the weighted population
  standard deviation, or the unweighted ones when the weights do not sum to a positive number.
\<close>

definition weighted_mean_std :: "real list \<Rightarrow> real list \<Rightarrow> fval \<times> fval" where
  "weighted_mean_std v w =
     (let w_sum = sum_list w in
      if w_sum \<le> 0 then (np_mean v, np_std v)
      else let mean = sum_list (map2 (*) w v) / w_sum;
               var = sum_list (map2 (\<lambda>wi vi. wi * (vi - mean)\<^sup>2) w v) / w_sum
           in (Fin mean, Fin (sqrt var)))"

text \<open>\<^verbatim>\<open>df.dropna(subset=cols)\<close>: the rows with no missing cell in the columns \<open>cols\<close>.\<close>

definition dropna :: "string list \<Rightarrow> dataframe \<Rightarrow> dataframe" where
  "dropna cols df = select_rows (\<lambda>r. list_all (\<lambda>c. cell_of r c \<noteq> Null) cols) df"

text \<open>A column rewritten cell by cell: \<^verbatim>\<open>df[c] = f(df[c])\<close>.\<close>

definition update_cell :: "string \<Rightarrow> (cell \<Rightarrow> cell) \<Rightarrow> row \<Rightarrow> row" where
  "update_cell c f r = map (\<lambda>(k, v). if k = c then (k, f v) else (k, v)) r"

definition update_column :: "string \<Rightarrow> (cell \<Rightarrow> cell) \<Rightarrow> dataframe \<Rightarrow> dataframe" where
  "update_column c f df = df\<lparr>rows := map (update_cell c f) (rows df)\<rparr>"

text \<open>\<^verbatim>\<open>pd.to_numeric(..., errors="coerce")\<close>: text that is no number becomes missing.\<close>

definition coerce :: "cell \<Rightarrow> cell" where
  "coerce v = (case v of Str _ \<Rightarrow> Null | _ \<Rightarrow> v)"

text \<open>\<^verbatim>\<open>astype(int)\<close> drops the fraction of a number, towards zero.\<close>

definition int_trunc :: "real \<Rightarrow> int" where
  "int_trunc x = (if 0 \<le> x then \<lfloor>x\<rfloor> else \<lceil>x\<rceil>)"

definition astype_int :: "cell \<Rightarrow> cell" where
  "astype_int v = (case v of Num x \<Rightarrow> Num (of_int (int_trunc x)) | _ \<Rightarrow> v)"

definition int_of_cell :: "cell \<Rightarrow> int" where
  "int_of_cell v = (case v of Num x \<Rightarrow> int_trunc x | _ \<Rightarrow> 0)"

text \<open>The numbers of a column, missing cells left out, as pandas' aggregations take them.\<close>

definition numbers :: "string \<Rightarrow> row list \<Rightarrow> real list" where
  "numbers c rs = List.map_filter (\<lambda>r. case cell_of r c of Num x \<Rightarrow> Some x | _ \<Rightarrow> None) rs"

text \<open>
  \<^verbatim>\<open>df.groupby(cols)\<close>: one group for each combination of key cells that occurs, with the
  rows that carry it. pandas lists the groups in key order; here they stand in the order of
  their first rows, and no row with a missing key cell reaches the grouping.
\<close>

definition key_of :: "string list \<Rightarrow> row \<Rightarrow> cell list" where
  "key_of cols r = map (cell_of r) cols"

definition groupby :: "string list \<Rightarrow> row list \<Rightarrow> (cell list \<times> row list) list" where
  "groupby cols rs =
     map (\<lambda>k. (k, filter (\<lambda>r. key_of cols r = k) rs)) (remdups (map (key_of cols) rs))"

record agg_row =
  year :: int
  group_key :: "cell list"
  mean_salary :: real
  sample_size :: nat
  category_label :: "cell option"

text \<open>
  The label of a group, \<^verbatim>\<open>s.mode().iat[0] if len(s.mode()) else s.iloc[0]\<close> over its
  \<^verbatim>\<open>course_category\<close> cells: the most frequent name, the first in the order of names among
  several, or the first cell when the group has no name. The column holds names or missing
  cells.
\<close>

definition names_of :: "string \<Rightarrow> row list \<Rightarrow> string list" where
  "names_of c rs = List.map_filter (\<lambda>r. case cell_of r c of Str s \<Rightarrow> Some s | _ \<Rightarrow> None) rs"

definition mode_first :: "string list \<Rightarrow> string option" where
  "mode_first names =
     (let candidates = sort (remdups names);
          most = fold (\<lambda>c k. max k (count_list names c)) candidates 0
      in find (\<lambda>c. count_list names c = most) candidates)"

definition label_of :: "row list \<Rightarrow> cell" where
  "label_of members =
     (case mode_first (names_of ''course_category'' members) of
        Some n \<Rightarrow> Str n
      | None \<Rightarrow> (case members of [] \<Rightarrow> Null | r # _ \<Rightarrow> cell_of r ''course_category''))"

text \<open>
  The aggregate of one group: the mean and the count of its salaries and, when the label
  column is merged (\<open>labelled\<close>), its label; \<open>category_label\<close> is then the column
  \<^verbatim>\<open>course_category\<close> of the table. The key starts with the year. A group has at least one
  row, and every row that reaches the grouping has a salary, so the mean is a number.
\<close>

definition aggregate :: "bool \<Rightarrow> string \<Rightarrow> cell list \<times> row list \<Rightarrow> agg_row" where
  "aggregate labelled salary_column g =
     (let vals = numbers salary_column (snd g) in
      \<lparr>year = int_of_cell (hd (fst g)), group_key = tl (fst g),
       mean_salary = sum_list vals / real (length vals), sample_size = length vals,
       category_label = (if labelled then Some (label_of (snd g)) else None)\<rparr>)"

record year_stat =
  stat_year :: int
  year_mean :: fval
  year_std :: fval
  n_groups :: nat
  weight_mode :: string

text \<open>
  The body of the loop over the years: the baseline of one year. The parameter \<open>mode\<close> is
  \<^verbatim>\<open>weight_mode\<close>, a string; every value other than \<^verbatim>\<open>"sample_size"\<close> takes the unweighted
  branch. \<open>stat_year\<close> is the column \<^verbatim>\<open>year\<close> of \<^verbatim>\<open>year_stats\<close>.
\<close>

definition year_stats_row :: "string \<Rightarrow> agg_row list \<Rightarrow> int \<Rightarrow> year_stat" where
  "year_stats_row mode agg y =
     (let sub = filter (\<lambda>a. year a = y) agg;
          vals = map mean_salary sub;
          (mu, sd) =
            (if mode = ''sample_size''
             then weighted_mean_std vals (map (\<lambda>a. real (sample_size a)) sub)
             else (if vals \<noteq> [] then np_mean vals else NaN,
                   if vals \<noteq> [] then np_std vals else NaN))
      in \<lparr>stat_year = y, year_mean = mu, year_std = sd, n_groups = length sub, weight_mode = mode\<rparr>)"

text \<open>
  The z-score of one row: the deviation from the year's mean over the year's standard
  deviation, where that is at least the floor; NaN otherwise, and every NaN filled with 0.
\<close>

definition std_safe :: "real \<Rightarrow> fval \<Rightarrow> fval" where
  "std_safe zscore_floor_std sd = (if fge sd (Fin zscore_floor_std) then sd else NaN)"

definition zscore :: "real \<Rightarrow> real \<Rightarrow> fval \<Rightarrow> fval \<Rightarrow> fval" where
  "zscore zscore_floor_std m mu sd =
     fillna 0 (fdiv (fsub (Fin m) mu) (std_safe zscore_floor_std sd))"

text \<open>
  \<^verbatim>\<open>rank(method="dense", ascending=False)\<close> within a group of scores: one more than the
  number of distinct scores above. \<^verbatim>\<open>rank(method="average", ascending=True, pct=True)\<close>:
  the mean of the positions the score and its ties take in ascending order, over the number
  of scores. A NaN score would have a NaN rank, which \<^verbatim>\<open>astype(int)\<close> refuses.
\<close>

definition dense_rank :: "fval list \<Rightarrow> fval \<Rightarrow> nat" where
  "dense_rank zs z = 1 + length (remdups (filter (\<lambda>v. fless z v) zs))"

definition pct_rank :: "fval list \<Rightarrow> fval \<Rightarrow> fval" where
  "pct_rank zs z =
     (if z = NaN then NaN
      else let valid = filter (\<lambda>v. v \<noteq> NaN) zs;
               below = length (filter (\<lambda>v. fless v z) valid);
               ties = length (filter (\<lambda>v. v = z) valid)
           in Fin ((real below + (real ties + 1) / 2) / real (length valid)))"

definition fmul :: "fval \<Rightarrow> real \<Rightarrow> fval" where
  "fmul v c = (case v of Fin x \<Rightarrow> Fin (x * c) | PInf \<Rightarrow> (if 0 < c then PInf else if c < 0 then NInf else NaN)
               | NInf \<Rightarrow> (if 0 < c then NInf else if c < 0 then PInf else NaN) | NaN \<Rightarrow> NaN)"

text \<open>
  The columns added to the aggregate table: \<open>row_year_mean\<close>, \<open>row_year_std\<close> and
  \<open>row_n_groups\<close> are the merged columns \<^verbatim>\<open>year_mean\<close>, \<^verbatim>\<open>year_std\<close> and \<^verbatim>\<open>n_groups\<close>.
\<close>

record scored_row = agg_row +
  row_year_mean :: fval
  row_year_std :: fval
  row_n_groups :: "nat option"
  year_std_safe :: fval
  z_score :: fval

record out_row = scored_row +
  rank :: nat
  percentile :: fval

record rpi_result =
  table :: "out_row list"
  year_stats :: "year_stat list"

text \<open>
  The rows kept for the aggregation: no missing cell in a required column, then year and
  salary read as numbers, text among them dropped, and the year cut to an integer.
\<close>

definition clean :: "string \<Rightarrow> string list \<Rightarrow> dataframe \<Rightarrow> dataframe" where
  "clean salary_column group_by df =
     (let df1 = dropna (''year'' # salary_column # group_by) df;
          df2 = update_column ''year'' coerce df1;
          df3 = update_column salary_column coerce df2;
          df4 = dropna [''year'', salary_column] df3
      in update_column ''year'' astype_int df4)"

text \<open>
  The aggregate table: one row for each year and group, and only the groups of at least
  \<open>min_sample_size\<close> salaries when that is positive.
\<close>

definition aggregate_groups ::
  "bool \<Rightarrow> string \<Rightarrow> string list \<Rightarrow> int \<Rightarrow> dataframe \<Rightarrow> agg_row list" where
  "aggregate_groups labelled salary_column group_by min_sample_size df =
     (let agg = map (aggregate labelled salary_column) (groupby (''year'' # group_by) (rows df))
      in if 0 < min_sample_size then filter (\<lambda>a. min_sample_size \<le> int (sample_size a)) agg
         else agg)"

text \<open>
  The left merge of the year's baseline onto an aggregate row, and the z-score columns.
  A row whose year had no baseline would get NaN there.
\<close>

definition score_row :: "real \<Rightarrow> year_stat list \<Rightarrow> agg_row \<Rightarrow> scored_row" where
  "score_row zscore_floor_std stats a =
     (let (mu, sd, n) =
            (case find (\<lambda>s. stat_year s = year a) stats of
               None \<Rightarrow> (NaN, NaN, None)
             | Some s \<Rightarrow> (year_mean s, year_std s, Some (n_groups s)))
      in \<lparr>year = year a, group_key = group_key a, mean_salary = mean_salary a,
          sample_size = sample_size a, category_label = category_label a, row_year_mean = mu, row_year_std = sd, row_n_groups = n,
          year_std_safe = std_safe zscore_floor_std sd,
          z_score = zscore zscore_floor_std (mean_salary a) mu sd\<rparr>)"

text \<open>The rank and the percentile of a row among the scores of its own year.\<close>

definition rank_row :: "scored_row list \<Rightarrow> scored_row \<Rightarrow> out_row" where
  "rank_row scored s =
     (let zs = map z_score (filter (\<lambda>t. year t = year s) scored)
      in \<lparr>year = year s, group_key = group_key s, mean_salary = mean_salary s,
          sample_size = sample_size s, category_label = category_label s, row_year_mean = row_year_mean s,
          row_year_std = row_year_std s, row_n_groups = row_n_groups s,
          year_std_safe = year_std_safe s, z_score = z_score s,
          rank = dense_rank zs (z_score s), percentile = fmul (pct_rank zs (z_score s)) 100\<rparr>)"

text \<open>
  The baselines, the scores and the ranks of an aggregate table. An empty table leaves
  \<^verbatim>\<open>year_stats\<close> a frame without columns, and selecting its columns for the merge raises
  KeyError.
\<close>

definition normalize :: "string \<Rightarrow> real \<Rightarrow> agg_row list \<Rightarrow> py_error + rpi_result" where
  "normalize mode zscore_floor_std agg =
     (let years = sort (remdups (map year agg));
          year_stats_rows = map (year_stats_row mode agg) years
      in if year_stats_rows = []
         then Inl (KeyError [''year'', ''year_mean'', ''year_std'', ''n_groups''])
         else let scored = map (score_row zscore_floor_std year_stats_rows) agg
              in if list_ex (\<lambda>s. z_score s = NaN) scored then Inl IntCastingNaNError
                 else Inr \<lparr>table = sort_key (\<lambda>r. (year r, rank r)) (map (rank_row scored) scored),
                           year_stats = sort_key stat_year year_stats_rows\<rparr>)"

text \<open>
  \<^verbatim>\<open>compute_relative_performance_index\<close>, with the content of the CSV file as its first
  argument. Its results are the table and the year statistics; the dictionary \<^verbatim>\<open>meta\<close>
  repeats arguments and counts and is left out. When the data has a column
  \<^verbatim>\<open>course_category\<close> and the grouping is by course, the label of each group is merged
  onto the aggregate; \<^verbatim>\<open>reset_index\<close> refuses to build that table of labels when
  \<^verbatim>\<open>course_category\<close> is itself a grouping column. The grouping columns are taken to be
  distinct, and other columns than the year and the salary.
\<close>

definition compute_relative_performance_index ::
  "dataframe \<Rightarrow> int option \<Rightarrow> int option \<Rightarrow> string list option \<Rightarrow> string list option \<Rightarrow>
   string list option \<Rightarrow> string \<Rightarrow> string list \<Rightarrow> int \<Rightarrow> string \<Rightarrow> real \<Rightarrow> py_error + rpi_result" where
  "compute_relative_performance_index csv year_start year_end universities categories courses
       salary_column group_by min_sample_size mode zscore_floor_std =
     (case load_data_rpi csv year_start year_end universities categories courses of
        Inl e \<Rightarrow> Inl e
      | Inr df \<Rightarrow>
          let required = ''year'' # salary_column # group_by;
              missing_required = filter (\<lambda>c. c \<notin> set (columns df)) required
          in if missing_required \<noteq> []
             then Inl (ValueError ''missing required columns'' missing_required)
             else let labelled = (''course_category'' \<in> set (columns df) \<and>
                                  ''course'' \<in> set group_by)
                  in if labelled \<and> ''course_category'' \<in> set group_by
                     then Inl (ValueError ''cannot insert, already exists'' [''course_category''])
                     else normalize mode zscore_floor_std
                            (aggregate_groups labelled salary_column group_by min_sample_size
                               (clean salary_column group_by df)))"

text \<open>Two courses in one year, with salaries 1 and 3, and the table computed for them.\<close>

definition rpi_example :: dataframe where
  "rpi_example =
     \<lparr>columns = [''year'', ''course'', ''gross_monthly_median''],
      rows = [[(''year'', Num 2020), (''course'', Str ''A''), (''gross_monthly_median'', Num 1)],
              [(''year'', Num 2020), (''course'', Str ''B''), (''gross_monthly_median'', Num 3)]]\<rparr>"

definition rpi_example_result :: rpi_result where
  "rpi_example_result =
     \<lparr>table =
        [\<lparr>year = 2020, group_key = [Str ''B''], mean_salary = 3, sample_size = 1,
          category_label = None, row_year_mean = Fin 2, row_year_std = Fin 1, row_n_groups = Some 2,
          year_std_safe = Fin 1, z_score = Fin 1, rank = 1, percentile = Fin 100\<rparr>,
         \<lparr>year = 2020, group_key = [Str ''A''], mean_salary = 1, sample_size = 1,
          category_label = None, row_year_mean = Fin 2, row_year_std = Fin 1, row_n_groups = Some 2,
          year_std_safe = Fin 1, z_score = Fin (- 1), rank = 2, percentile = Fin 50\<rparr>],
      year_stats =
        [\<lparr>stat_year = 2020, year_mean = Fin 2, year_std = Fin 1, n_groups = 2,
          weight_mode = ''none''\<rparr>]\<rparr>"

text \<open>A frame with neither a course column nor a salary column.\<close>

definition sparse_example :: dataframe where
  "sparse_example =
     \<lparr>columns = [''year'', ''university''],
      rows = [[(''year'', Num 2020), (''university'', Str ''NUS'')]]\<rparr>"

text \<open>Three courses in one year with the same salary, and the table computed for them.\<close>

definition tied_example :: dataframe where
  "tied_example =
     \<lparr>columns = [''year'', ''course'', ''gross_monthly_median''],
      rows = [[(''year'', Num 2020), (''course'', Str ''A''), (''gross_monthly_median'', Num 5)],
              [(''year'', Num 2020), (''course'', Str ''B''), (''gross_monthly_median'', Num 5)],
              [(''year'', Num 2020), (''course'', Str ''C''), (''gross_monthly_median'', Num 5)]]\<rparr>"

definition tied_row :: "string \<Rightarrow> out_row" where
  "tied_row c =
     \<lparr>year = 2020, group_key = [Str c], mean_salary = 5, sample_size = 1,
      category_label = None, row_year_mean = Fin 5, row_year_std = Fin 0, row_n_groups = Some 3,
      year_std_safe = NaN, z_score = Fin 0, rank = 1, percentile = Fin (200 / 3)\<rparr>"

definition tied_example_result :: rpi_result where
  "tied_example_result =
     \<lparr>table = [tied_row ''A'', tied_row ''B'', tied_row ''C''],
      year_stats =
        [\<lparr>stat_year = 2020, year_mean = Fin 5, year_std = Fin 0, n_groups = 3,
          weight_mode = ''none''\<rparr>]\<rparr>"

text \<open>The table for the same three courses when the floor is 0.\<close>

definition tied_floor0_result :: rpi_result where
  "tied_floor0_result =
     \<lparr>table = map (\<lambda>c. (tied_row c)\<lparr>year_std_safe := Fin 0\<rparr>) [''A'', ''B'', ''C''],
      year_stats =
        [\<lparr>stat_year = 2020, year_mean = Fin 5, year_std = Fin 0, n_groups = 3,
          weight_mode = ''none''\<rparr>]\<rparr>"

subsection \<open>The focus groups of the bump chart\<close>

text \<open>
  \<^verbatim>\<open>select_focus_groups(table, group_col, top_k, min_years, focus)\<close>. The group column holds
  names (text) or missing cells; a group is the rows of one name. \<^verbatim>\<open>groupby\<close> lists the
  groups in the order of their names, leaves rows without a name out, and the aggregations
  skip missing cells: the mean of no numbers is NaN.
\<close>

definition nunique :: "string \<Rightarrow> row list \<Rightarrow> nat" where
  "nunique c rs = length (remdups (filter (\<lambda>v. v \<noteq> Null) (map (\<lambda>r. cell_of r c) rs)))"

record focus_stats =
  name :: string
  avg_z :: fval
  years :: nat

definition group_stats :: "dataframe \<Rightarrow> string \<Rightarrow> string \<Rightarrow> focus_stats" where
  "group_stats tbl group_col g =
     (let members = filter (\<lambda>r. cell_of r group_col = Str g) (rows tbl)
      in \<lparr>name = g, avg_z = np_mean (numbers ''z_score'' members),
          years = nunique ''year'' members\<rparr>)"







section \<open>EmploymentSalaryTradeoffAnalytics\<close>

text \<open>
  The results of \<^verbatim>\<open>employment_salary_tradeoff\<close>: the summary by course category, the two
  correlations, the quadrant labels, the trend line, the residuals, and the rows and years
  reported in \<^verbatim>\<open>meta\<close>. The rankings, which cut the summary to \<open>top_n\<close> rows, the counts of
  missing cells and the constant labels of the chart are left out. The category column
  holds names or missing cells, and the two metric columns numbers or missing cells; text
  in a metric column makes the aggregation raise.
\<close>

definition load_data_tradeoff ::
  "dataframe \<Rightarrow> int option \<Rightarrow> int option \<Rightarrow> string list option \<Rightarrow> py_error + dataframe" where
  "load_data_tradeoff csv year_start year_end categories =
     (case filter_year_start year_start csv of
        Inl e \<Rightarrow> Inl e
      | Inr df1 \<Rightarrow>
     (case filter_year_end year_end df1 of
        Inl e \<Rightarrow> Inl e
      | Inr df2 \<Rightarrow> filter_isin ''course_category'' categories df2))"

text \<open>
  The aggregation \<^verbatim>\<open>"std"\<close> of a pandas group: the standard deviation with divisor one
  less than the number of values, NaN for fewer than two values.
\<close>

definition pd_std :: "real list \<Rightarrow> fval" where
  "pd_std v =
     (if length v < 2 then NaN
      else let m = sum_list v / real (length v)
           in Fin (sqrt (sum_list (map (\<lambda>x. (x - m)\<^sup>2) v) / (real (length v) - 1))))"

text \<open>\<^verbatim>\<open>Series.median()\<close>: the middle of the sorted values, or the mean of the two middle ones.\<close>

definition pd_median :: "real list \<Rightarrow> fval" where
  "pd_median v =
     (let s = sort v; n = length s in
      if n = 0 then NaN
      else if odd n then Fin (s ! (n div 2))
      else Fin ((s ! (n div 2 - 1) + s ! (n div 2)) / 2))"

text \<open>
  \<^verbatim>\<open>DataFrame.corr()\<close> for two columns: the product-moment coefficient, NaN when the
  product of the two sums of squares is zero.
\<close>

definition pearson :: "real list \<Rightarrow> real list \<Rightarrow> fval" where
  "pearson x y =
     (let mx = sum_list x / real (length x);
          my = sum_list y / real (length y);
          sxy = sum_list (map2 (\<lambda>xi yi. (xi - mx) * (yi - my)) x y);
          sxx = sum_list (map (\<lambda>xi. (xi - mx)\<^sup>2) x);
          syy = sum_list (map (\<lambda>yi. (yi - my)\<^sup>2) y)
      in if sqrt (sxx * syy) = 0 then NaN else Fin (sxy / sqrt (sxx * syy)))"

record summary_row =
  course_category :: string
  avg_employment_rate :: real
  avg_median_salary :: real
  employment_rate_std :: fval
  median_salary_std :: fval
  category_sample_size :: nat

text \<open>
  The rows of one category and their aggregate. \<open>category_sample_size\<close> is the column
  \<^verbatim>\<open>sample_size\<close>, the count of the rows with a course.
\<close>

definition category_rows :: "row list \<Rightarrow> string \<Rightarrow> row list" where
  "category_rows rs c = filter (\<lambda>r. cell_of r ''course_category'' = Str c) rs"

definition summarise_category :: "row list \<Rightarrow> string \<Rightarrow> summary_row" where
  "summarise_category rs c =
     (let members = category_rows rs c;
          e = numbers ''employment_rate_overall'' members;
          s = numbers ''gross_monthly_median'' members
      in \<lparr>course_category = c,
          avg_employment_rate = sum_list e / real (length e),
          avg_median_salary = sum_list s / real (length s),
          employment_rate_std = pd_std e,
          median_salary_std = pd_std s,
          category_sample_size = length (filter (\<lambda>r. cell_of r ''course'' \<noteq> Null) members)\<rparr>)"

definition tradeoff_rows :: "dataframe \<Rightarrow> row list" where
  "tradeoff_rows df =
     rows (dropna [''employment_rate_overall'', ''gross_monthly_median'', ''course_category''] df)"

text \<open>
  The summary table: the aggregate of each category, the categories of fewer than
  \<open>min_sample_size\<close> courses left out when that is positive, by mean salary descending.
  Categories of equal mean salary stand here in the order of their names.
\<close>

definition build_summary :: "dataframe \<Rightarrow> int \<Rightarrow> py_error + summary_row list" where
  "build_summary df min_sample_size =
     (let required_cols = [''employment_rate_overall'', ''gross_monthly_median'',
                           ''course_category'', ''year''];
          absent = filter (\<lambda>c. c \<notin> set (columns df)) required_cols
      in if absent \<noteq> [] then Inl (KeyError absent)
         else if ''course'' \<notin> set (columns df) then Inl (KeyError [''course''])
         else if list_ex (\<lambda>r. is_text (cell_of r ''employment_rate_overall'') \<or>
                                is_text (cell_of r ''gross_monthly_median'')) (tradeoff_rows df)
         then Inl TypeError
         else let summary = map (summarise_category (tradeoff_rows df))
                              (sort (remdups (names_of ''course_category'' (tradeoff_rows df))));
                  kept = (if 0 < min_sample_size
                          then filter (\<lambda>s. min_sample_size \<le> int (category_sample_size s)) summary
                          else summary)
              in Inr (sort_key (\<lambda>s. - avg_median_salary s) kept))"

text \<open>
  The correlation of the two columns of means, and the correlation weighted by sample
  size; \<open>None\<close> is Python's \<^verbatim>\<open>None\<close>.
\<close>

definition correlation_of :: "summary_row list \<Rightarrow> fval option" where
  "correlation_of summary =
     (if 2 \<le> length summary
      then Some (pearson (map avg_employment_rate summary) (map avg_median_salary summary))
      else None)"

definition weighted_correlation_of :: "summary_row list \<Rightarrow> real option" where
  "weighted_correlation_of summary =
     (if 2 \<le> length summary then
        let w = (\<lambda>s. real (category_sample_size s));
            w_sum = sum_list (map w summary)
        in if 0 < w_sum then
             let x_mean = sum_list (map (\<lambda>s. w s * avg_employment_rate s) summary) / w_sum;
                 y_mean = sum_list (map (\<lambda>s. w s * avg_median_salary s) summary) / w_sum;
                 cov = sum_list (map (\<lambda>s. w s * (avg_employment_rate s - x_mean)
                                               * (avg_median_salary s - y_mean)) summary) / w_sum;
                 var_x = sum_list (map (\<lambda>s. w s * (avg_employment_rate s - x_mean)\<^sup>2) summary) / w_sum;
                 var_y = sum_list (map (\<lambda>s. w s * (avg_median_salary s - y_mean)\<^sup>2) summary) / w_sum
             in if 0 < var_x \<and> 0 < var_y then Some (cov / sqrt (var_x * var_y)) else None
           else None
      else None)"

text \<open>
  The quadrant labels: a value is High when it is at least the median of its column over
  the summary at hand.
\<close>

record quadrant_row = summary_row +
  salary_level :: string
  employment_level :: string
  quadrant :: string

definition level :: "real \<Rightarrow> fval \<Rightarrow> string" where
  "level v median = (if fge (Fin v) median then ''High'' else ''Low'')"

definition label_row :: "fval \<Rightarrow> fval \<Rightarrow> summary_row \<Rightarrow> quadrant_row" where
  "label_row salary_median employment_median s =
     \<lparr>course_category = course_category s, avg_employment_rate = avg_employment_rate s,
      avg_median_salary = avg_median_salary s, employment_rate_std = employment_rate_std s,
      median_salary_std = median_salary_std s, category_sample_size = category_sample_size s,
      salary_level = level (avg_median_salary s) salary_median,
      employment_level = level (avg_employment_rate s) employment_median,
      quadrant = level (avg_median_salary s) salary_median @ '' Salary / '' @
                 level (avg_employment_rate s) employment_median @ '' Employment''\<rparr>"

definition label_quadrants :: "summary_row list \<Rightarrow> quadrant_row list" where
  "label_quadrants summary =
     (if 0 < length summary
      then map (label_row (pd_median (map avg_median_salary summary))
                          (pd_median (map avg_employment_rate summary))) summary
      else [])"

record trend =
  slope :: real
  intercept :: real
  r2 :: "real option"

text \<open>
  The trend line. \<^verbatim>\<open>np.polyfit(x, y, 1)\<close> is numpy's; it is a parameter here, a function
  that gives a slope \<open>a\<close> and an intercept \<open>b\<close> or raises.
\<close>

definition trendline_of ::
  "(real list \<Rightarrow> real list \<Rightarrow> py_error + real \<times> real) \<Rightarrow> bool \<Rightarrow> summary_row list \<Rightarrow>
   py_error + trend option" where
  "trendline_of polyfit add_trendline summary =
     (if add_trendline \<and> 2 \<le> length summary then
        let x = map avg_employment_rate summary;
            y = map avg_median_salary summary
        in case polyfit x y of
             Inl e \<Rightarrow> Inl e
           | Inr (a, b) \<Rightarrow>
               let y_hat = map (\<lambda>xi. a * xi + b) x;
                   ss_res = sum_list (map2 (\<lambda>yi hi. (yi - hi)\<^sup>2) y y_hat);
                   ss_tot = sum_list (map (\<lambda>yi. (yi - sum_list y / real (length y))\<^sup>2) y)
               in Inr (Some \<lparr>slope = a, intercept = b,
                              r2 = (if ss_tot \<noteq> 0 then Some (1 - ss_res / ss_tot) else None)\<rparr>)
      else Inr None)"

text \<open>The residuals of the second fit, the column \<^verbatim>\<open>salary_residual\<close>.\<close>

definition residuals_of ::
  "(real list \<Rightarrow> real list \<Rightarrow> py_error + real \<times> real) \<Rightarrow> summary_row list \<Rightarrow>
   py_error + real list option" where
  "residuals_of polyfit summary =
     (if 2 \<le> length summary then
        let x = map avg_employment_rate summary;
            y = map avg_median_salary summary
        in case polyfit x y of
             Inl e \<Rightarrow> Inl e
           | Inr (a, b) \<Rightarrow> Inr (Some (map2 (\<lambda>yi xi. yi - (a * xi + b)) y x))
      else Inr None)"

text \<open>
  Drawing the chart changes no result, but it can refuse: the limits of the axes are the
  least and the greatest mean, padded, and these are NaN for a summary without rows, which
  \<^verbatim>\<open>set_xlim\<close> rejects. Writing the image file is taken to succeed.
\<close>

definition draw_chart :: "summary_row list \<Rightarrow> py_error + unit" where
  "draw_chart summary =
     (if summary = [] then Inl (ValueError ''Axis limits cannot be NaN or Inf'' [])
      else Inr ())"

text \<open>
  The years of \<^verbatim>\<open>meta\<close>: \<^verbatim>\<open>int(df["year"].min())\<close> and \<^verbatim>\<open>int(df["year"].max())\<close> over the
  rows used, or \<^verbatim>\<open>None\<close> when there is no row. The year is not among the columns whose
  missing cells drop a row, so the least year of rows without any year is NaN, which
  \<^verbatim>\<open>int\<close> refuses, as it refuses the least of a column of text; text cannot be compared
  with a number or a missing cell.
\<close>

definition meta_years :: "row list \<Rightarrow> py_error + int option \<times> int option" where
  "meta_years rs =
     (if rs = [] then Inr (None, None)
      else let cells = map (\<lambda>r. cell_of r ''year'') rs;
               ys = sort (numbers ''year'' rs)
           in if list_all is_text cells then Inl (ValueError ''invalid literal for int()'' [])
              else if list_ex is_text cells then Inl TypeError
              else if ys = [] then Inl (ValueError ''cannot convert float NaN to integer'' [])
              else Inr (Some (int_trunc (hd ys)), Some (int_trunc (last ys))))"

text \<open>
  \<^verbatim>\<open>employment_salary_tradeoff\<close>, with the fit and the content of the CSV file as its first
  arguments.
\<close>

record tradeoff_result =
  summary :: "quadrant_row list"
  correlation :: "fval option"
  correlation_weighted :: "real option"
  trendline :: "trend option"
  salary_residual :: "real list option"
  rows_used :: nat
  year_min :: "int option"
  year_max :: "int option"

definition employment_salary_tradeoff ::
  "(real list \<Rightarrow> real list \<Rightarrow> py_error + real \<times> real) \<Rightarrow> dataframe \<Rightarrow> int option \<Rightarrow>
   int option \<Rightarrow> string list option \<Rightarrow> int \<Rightarrow> bool \<Rightarrow> py_error + tradeoff_result" where
  "employment_salary_tradeoff polyfit csv year_start year_end categories min_sample_size
       add_trendline =
     (case load_data_tradeoff csv year_start year_end categories of
        Inl e \<Rightarrow> Inl e
      | Inr df \<Rightarrow>
     (case build_summary df min_sample_size of
        Inl e \<Rightarrow> Inl e
      | Inr s \<Rightarrow>
     (case draw_chart s of
        Inl e \<Rightarrow> Inl e
      | Inr _ \<Rightarrow>
     (case trendline_of polyfit add_trendline s of
        Inl e \<Rightarrow> Inl e
      | Inr t \<Rightarrow>
     (case residuals_of polyfit s of
        Inl e \<Rightarrow> Inl e
      | Inr res \<Rightarrow>
     (case meta_years (tradeoff_rows df) of
        Inl e \<Rightarrow> Inl e
      | Inr (lo, hi) \<Rightarrow>
          Inr \<lparr>summary = label_quadrants s, correlation = correlation_of s,
               correlation_weighted = weighted_correlation_of s, trendline = t,
               salary_residual = res, rows_used = length (tradeoff_rows df),
               year_min = lo, year_max = hi\<rparr>))))))"

text \<open>
  A fit for the examples: the least-squares line, which is what \<^verbatim>\<open>np.polyfit(x, y, 1)\<close>
  returns when the \<open>x\<close> are not all the same. The examples use it on such inputs only.
\<close>

definition least_squares :: "real list \<Rightarrow> real list \<Rightarrow> py_error + real \<times> real" where
  "least_squares x y =
     (let mx = sum_list x / real (length x);
          my = sum_list y / real (length y);
          a = sum_list (map2 (\<lambda>xi yi. (xi - mx) * (yi - my)) x y)
              / sum_list (map (\<lambda>xi. (xi - mx)\<^sup>2) x)
      in Inr (a, my - a * mx))"

text \<open>Two categories of one record each: the better paid one has the lower employment rate.\<close>

definition survey_row :: "string \<Rightarrow> real \<Rightarrow> real \<Rightarrow> row" where
  "survey_row c e s =
     [(''year'', Num 2020), (''course_category'', Str c), (''course'', Str ''Course''),
      (''employment_rate_overall'', Num e), (''gross_monthly_median'', Num s)]"

definition survey_columns :: "string list" where
  "survey_columns = [''year'', ''course_category'', ''course'', ''employment_rate_overall'',
                     ''gross_monthly_median'']"

definition tradeoff_example :: dataframe where
  "tradeoff_example =
     \<lparr>columns = survey_columns, rows = [survey_row ''A'' 1 2, survey_row ''B'' 2 1]\<rparr>"

definition tradeoff_example_summary :: "summary_row list" where
  "tradeoff_example_summary =
     [\<lparr>course_category = ''A'', avg_employment_rate = 1, avg_median_salary = 2,
       employment_rate_std = NaN, median_salary_std = NaN, category_sample_size = 1\<rparr>,
      \<lparr>course_category = ''B'', avg_employment_rate = 2, avg_median_salary = 1,
       employment_rate_std = NaN, median_salary_std = NaN, category_sample_size = 1\<rparr>]"

text \<open>Three categories of one record each; two of them share the lowest salary.\<close>

definition quadrant_example :: dataframe where
  "quadrant_example =
     \<lparr>columns = survey_columns,
      rows = [survey_row ''A'' 10 1, survey_row ''B'' 20 1, survey_row ''C'' 30 2]\<rparr>"

definition quadrant_example_summary :: "summary_row list" where
  "quadrant_example_summary =
     [\<lparr>course_category = ''C'', avg_employment_rate = 30, avg_median_salary = 2,
       employment_rate_std = NaN, median_salary_std = NaN, category_sample_size = 1\<rparr>,
      \<lparr>course_category = ''A'', avg_employment_rate = 10, avg_median_salary = 1,
       employment_rate_std = NaN, median_salary_std = NaN, category_sample_size = 1\<rparr>,
      \<lparr>course_category = ''B'', avg_employment_rate = 20, avg_median_salary = 1,
       employment_rate_std = NaN, median_salary_std = NaN, category_sample_size = 1\<rparr>]"

text \<open>One category of two records, with employment rates 1 and 3.\<close>

definition std_example :: dataframe where
  "std_example =
     \<lparr>columns = survey_columns, rows = [survey_row ''A'' 1 1, survey_row ''A'' 3 3]\<rparr>"

definition std_example_summary :: "summary_row list" where
  "std_example_summary =
     [\<lparr>course_category = ''A'', avg_employment_rate = 2, avg_median_salary = 2,
       employment_rate_std = Fin (sqrt 2), median_salary_std = Fin (sqrt 2),
       category_sample_size = 2\<rparr>]"


definition flat_example_summary :: "summary_row list" where
  "flat_example_summary =
     [\<lparr>course_category = ''A'', avg_employment_rate = 1, avg_median_salary = 2,
       employment_rate_std = NaN, median_salary_std = NaN, category_sample_size = 1\<rparr>,
      \<lparr>course_category = ''B'', avg_employment_rate = 2, avg_median_salary = 2,
       employment_rate_std = NaN, median_salary_std = NaN, category_sample_size = 1\<rparr>]"

text \<open>The same two records without their years.\<close>

definition no_year_example :: dataframe where
  "no_year_example =
     \<lparr>columns = survey_columns,
      rows = [(''year'', Null) # tl (survey_row ''A'' 1 2),
              (''year'', Null) # tl (survey_row ''B'' 2 2)]\<rparr>"

section \<open>Properties of the university loader\<close>

lemma rows_select_rows: "rows (select_rows p df) = filter p (rows df)"
  and columns_select_rows: "columns (select_rows p df) = columns df"
  by (simp_all add: select_rows_def)

lemma filter_isin_Inr:
  assumes "filter_isin c sel df = Inr out"
  shows "columns out = columns df \<and> (\<exists>p. rows out = filter p (rows df))"
proof (cases sel)
  case None
  with assms have "out = df" by (simp add: filter_isin_def)
  then show ?thesis by (auto intro: exI[of _ "\<lambda>_. True"])
next
  case (Some names)
  show ?thesis
  proof (cases "names = []")
    case True
    with Some assms have "out = df" by (simp add: filter_isin_def)
    then show ?thesis by (auto intro: exI[of _ "\<lambda>_. True"])
  next
    case False
    with Some assms show ?thesis
      by (auto simp: filter_isin_def rows_select_rows columns_select_rows split: if_splits)
  qed
qed

lemma filter_isin_rows:
  assumes "filter_isin c sel df = Inr out"
  shows "\<exists>p. \<forall>df'. columns df' = columns df \<longrightarrow>
           (\<exists>out'. filter_isin c sel df' = Inr out' \<and> rows out' = filter p (rows df') \<and>
                   rows out = filter p (rows df))"
  using assms
  by (cases sel)
    (auto simp: filter_isin_def rows_select_rows split: if_splits intro: exI[of _ "\<lambda>_. True"])

text \<open>
  C10. Every row the university loader returns belongs to a university (no missing cell)
  that has at least \<open>MIN_RECORDS\<close> rows in the year- and category-filtered data; hence a
  university with fewer rows there has no row in the result, whether or not the caller
  listed it in the universities filter, and the loader reports no error for it.
\<close>

theorem load_data_uni_min_records:
  assumes "load_data_uni csv year_start year_end universities categories = Inr out"
  shows "\<exists>base. year_category_filtered csv year_start year_end categories = Inr base \<and>
           (\<forall>r \<in> set (rows out).
              cell_of r ''university'' \<noteq> Null \<and>
              MIN_RECORDS \<le> value_count ''university'' base (cell_of r ''university'')) \<and>
           (\<forall>u. value_count ''university'' base (Str u) < MIN_RECORDS \<longrightarrow>
              (\<forall>r \<in> set (rows out). cell_of r ''university'' \<noteq> Str u))"
proof -
  from assms obtain df1 df2 df3 where
    s1: "filter_year_range year_start year_end csv = Inr df1" and
    s2: "filter_isin ''university'' universities df1 = Inr df2" and
    s3: "filter_isin ''course_category'' categories df2 = Inr df3" and
    s4: "filter_major df3 = Inr out"
    by (auto simp: load_data_uni_def split: sum.splits)
  from filter_isin_Inr[OF s2] obtain pu where
    c2: "columns df2 = columns df1" and r2: "rows df2 = filter pu (rows df1)" by blast
  from filter_isin_rows[OF s3] obtain pc where
    pc: "\<And>df'. columns df' = columns df2 \<Longrightarrow>
           \<exists>out'. filter_isin ''course_category'' categories df' = Inr out' \<and> rows out' = filter pc (rows df')"
    and r3: "rows df3 = filter pc (rows df2)" by blast
  from pc[of df1] c2 obtain base where
    b: "filter_isin ''course_category'' categories df1 = Inr base" and
    rb: "rows base = filter pc (rows df1)" by auto
  have yc: "year_category_filtered csv year_start year_end categories = Inr base"
    using s1 b by (simp add: year_category_filtered_def)
  have le: "value_count ''university'' df3 v \<le> value_count ''university'' base v" for v
  proof -
    have "filter (\<lambda>r. cell_of r ''university'' = v) (rows df3)
          = filter pu (filter (\<lambda>r. cell_of r ''university'' = v) (rows base))"
      by (simp add: r3 r2 rb) metis
    then show ?thesis
      unfolding value_count_def by (metis length_filter_le)
  qed
  have rows_out: "rows out = filter (\<lambda>r. major_unis df3 (cell_of r ''university'')) (rows df3)"
    using s4 by (auto simp: filter_major_def rows_select_rows split: if_splits)
  have main: "cell_of r ''university'' \<noteq> Null \<and>
              MIN_RECORDS \<le> value_count ''university'' base (cell_of r ''university'')"
    if "r \<in> set (rows out)" for r
  proof -
    from that rows_out have "major_unis df3 (cell_of r ''university'')" by simp
    then show ?thesis using le[of "cell_of r ''university''"] by (auto simp: major_unis_def)
  qed
  have excl: "\<forall>r \<in> set (rows out). cell_of r ''university'' \<noteq> Str u"
    if "value_count ''university'' base (Str u) < MIN_RECORDS" for u
    using main that by (metis not_less)
  show ?thesis using yc main excl by blast
qed

lemma uni_example_load:
  "load_data_uni uni_example 2015 2022 (Some [''NUS'', ''SIT'']) None
   = Inr (uni_example\<lparr>rows := replicate 40 (uni_row ''NUS'')\<rparr>)"
  by (simp add: load_data_uni_def filter_year_range_def compare_column_def filter_isin_def
      filter_major_def select_rows_def uni_example_def uni_row_def cell_of_def is_text_def isin_def
      major_unis_def value_count_def MIN_RECORDS_def list_ex_iff)

lemma uni_example_base: "year_category_filtered uni_example 2015 2022 None = Inr uni_example"
  by (simp add: year_category_filtered_def filter_year_range_def compare_column_def filter_isin_def
      select_rows_def uni_example_def uni_row_def cell_of_def is_text_def list_ex_iff)

theorem load_data_uni_min_records_witness:
  "load_data_uni uni_example 2015 2022 (Some [''NUS'', ''SIT'']) None
     = Inr (uni_example\<lparr>rows := replicate 40 (uni_row ''NUS'')\<rparr>) \<and>
   year_category_filtered uni_example 2015 2022 None = Inr uni_example \<and>
   value_count ''university'' uni_example (Str ''SIT'') = 39 \<and>
   MIN_RECORDS \<le> value_count ''university'' uni_example (Str ''NUS'') \<and>
   uni_row ''SIT'' \<notin> set (rows (uni_example\<lparr>rows := replicate 40 (uni_row ''NUS'')\<rparr>))"
proof -
  have cnt: "value_count ''university'' uni_example (Str ''SIT'') = 39"
    by (simp add: value_count_def uni_example_def uni_row_def cell_of_def)
  have mem: "uni_row ''NUS'' \<in> set (rows (uni_example\<lparr>rows := replicate 40 (uni_row ''NUS'')\<rparr>))"
    by simp
  have sit: "cell_of (uni_row ''SIT'') ''university'' = Str ''SIT''"
    and nus: "cell_of (uni_row ''NUS'') ''university'' = Str ''NUS''"
    by (simp_all add: uni_row_def cell_of_def)
  from load_data_uni_min_records[OF uni_example_load] uni_example_base
  have all: "\<forall>r \<in> set (rows (uni_example\<lparr>rows := replicate 40 (uni_row ''NUS'')\<rparr>)).
               cell_of r ''university'' \<noteq> Null \<and>
               MIN_RECORDS \<le> value_count ''university'' uni_example (cell_of r ''university'')"
    and none: "\<forall>u. value_count ''university'' uni_example (Str u) < MIN_RECORDS \<longrightarrow>
               (\<forall>r \<in> set (rows (uni_example\<lparr>rows := replicate 40 (uni_row ''NUS'')\<rparr>)).
                  cell_of r ''university'' \<noteq> Str u)"
    by auto
  from all mem nus have big: "MIN_RECORDS \<le> value_count ''university'' uni_example (Str ''NUS'')"
    by (metis (no_types, lifting))
  from cnt have "value_count ''university'' uni_example (Str ''SIT'') < MIN_RECORDS"
    by (simp add: MIN_RECORDS_def)
  with none sit have "uni_row ''SIT'' \<notin> set (rows (uni_example\<lparr>rows := replicate 40 (uni_row ''NUS'')\<rparr>))"
    by blast
  with uni_example_load uni_example_base cnt big show ?thesis by blast
qed

section \<open>Properties of the relative performance index\<close>

lemma cell_of_update_cell:
  "cell_of (update_cell c f r) c' =
     (if c' = c then (case map_of r c of None \<Rightarrow> Null | Some v \<Rightarrow> f v) else cell_of r c')"
  by (induction r) (auto simp: update_cell_def cell_of_def)

lemma cell_of_coerce_not_text: "\<not> is_text (cell_of (update_cell c coerce r) c)"
  by (auto simp: cell_of_update_cell coerce_def is_text_def split: option.splits cell.splits)

lemma cell_of_astype_int_num:
  "cell_of r c' = Num x \<Longrightarrow> \<exists>y. cell_of (update_cell c astype_int r) c' = Num y"
  by (simp add: cell_of_update_cell) (auto simp: cell_of_def astype_int_def split: option.splits)

lemma rows_update_column: "rows (update_column c f df) = map (update_cell c f) (rows df)"
  by (simp add: update_column_def)

lemma rows_dropna: "rows (dropna cols df) = filter (\<lambda>r. list_all (\<lambda>c. cell_of r c \<noteq> Null) cols) (rows df)"
  by (simp add: dropna_def select_rows_def)

lemma clean_salary_num:
  assumes "r \<in> set (rows (clean salary_column group_by df))"
  shows "\<exists>x. cell_of r salary_column = Num x"
proof -
  from assms obtain r4 where r: "r = update_cell ''year'' astype_int r4"
    and r4: "r4 \<in> set (rows (dropna [''year'', salary_column]
               (update_column salary_column coerce (update_column ''year'' coerce
                  (dropna (''year'' # salary_column # group_by) df)))))"
    by (auto simp: clean_def Let_def rows_update_column)
  from r4 obtain r2 where r42: "r4 = update_cell salary_column coerce r2"
    and nn: "cell_of r4 salary_column \<noteq> Null"
    by (auto simp: rows_dropna rows_update_column)
  from r42 have "\<not> is_text (cell_of r4 salary_column)"
    by (simp add: cell_of_coerce_not_text)
  with nn obtain x where "cell_of r4 salary_column = Num x"
    by (cases "cell_of r4 salary_column") (auto simp: is_text_def)
  then show ?thesis unfolding r by (rule cell_of_astype_int_num)
qed

lemma length_numbers_all_num:
  assumes "\<forall>r \<in> set rs. \<exists>x. cell_of r c = Num x"
  shows "length (numbers c rs) = length rs"
  using assms by (induction rs) (auto simp: numbers_def List.map_filter_def)

lemma groupby_members:
  assumes "g \<in> set (groupby cols rs)"
  shows "snd g \<noteq> [] \<and> set (snd g) \<subseteq> set rs"
  using assms by (auto simp: groupby_def filter_empty_conv)

lemma aggregate_groups_sample_size:
  assumes "a \<in> set (aggregate_groups labelled salary_column group_by min_sample_size
                      (clean salary_column group_by df))"
  shows "1 \<le> sample_size a"
proof -
  let ?rs = "rows (clean salary_column group_by df)"
  from assms obtain g where g: "g \<in> set (groupby (''year'' # group_by) ?rs)"
    and a: "a = aggregate labelled salary_column g"
    by (auto simp: aggregate_groups_def Let_def split: if_splits)
  from groupby_members[OF g] have ne: "snd g \<noteq> []" and sub: "set (snd g) \<subseteq> set ?rs" by auto
  from sub have "\<forall>r \<in> set (snd g). \<exists>x. cell_of r salary_column = Num x"
    using clean_salary_num by blast
  then have "length (numbers salary_column (snd g)) = length (snd g)"
    by (rule length_numbers_all_num)
  with ne show ?thesis by (cases "snd g") (auto simp: a aggregate_def Let_def)
qed



lemma sum_list_pos_weights:
  fixes w :: "'a \<Rightarrow> real"
  assumes "xs \<noteq> []" and "\<forall>a \<in> set xs. 0 < w a"
  shows "0 < sum_list (map w xs)"
proof -
  from assms(1) obtain a ys where xs: "xs = a # ys" by (cases xs) auto
  have "0 \<le> sum_list (map w ys)"
    using assms(2) by (intro sum_list_nonneg) (auto simp: xs less_imp_le)
  moreover have "0 < w a" using assms(2) by (simp add: xs)
  ultimately show ?thesis by (simp add: xs add_pos_nonneg)
qed

lemma stat_year_year_stats_row [simp]: "stat_year (year_stats_row mode agg y) = y"
  by (simp add: year_stats_row_def Let_def split: prod.splits)


lemma find_year_stats_row:
  assumes "y \<in> set ys"
  shows "find (\<lambda>s. stat_year s = y) (map (year_stats_row mode agg) ys)
         = Some (year_stats_row mode agg y)"
  using assms by (induction ys) auto

lemma zscore_Fin:
  "zscore zscore_floor_std m (Fin mu) (Fin sd) =
     (if zscore_floor_std \<le> sd
      then (if sd = 0 then (if m = mu then Fin 0 else if mu < m then PInf else NInf)
            else Fin ((m - mu) / sd))
      else Fin 0)"
  by (simp add: zscore_def std_safe_def fillna_def)

lemma rank_row_fields [simp]:
  "year (rank_row scored s) = year s"
  "mean_salary (rank_row scored s) = mean_salary s"
  "sample_size (rank_row scored s) = sample_size s"
  "group_key (rank_row scored s) = group_key s"
  "row_year_mean (rank_row scored s) = row_year_mean s"
  "row_year_std (rank_row scored s) = row_year_std s"
  "z_score (rank_row scored s) = z_score s"
  by (simp_all add: rank_row_def Let_def)

lemma score_row_fields:
  fixes mode :: string and fl :: real
  assumes "a \<in> set agg"
  defines "st \<equiv> year_stats_row mode agg (year a)"
  defines "s \<equiv> score_row fl (map (year_stats_row mode agg) (sort (remdups (map year agg)))) a"
  shows "year s = year a" "mean_salary s = mean_salary a" "sample_size s = sample_size a"
    "group_key s = group_key a"
    "row_year_mean s = year_mean st" "row_year_std s = year_std st"
    "z_score s = zscore fl (mean_salary a) (year_mean st) (year_std st)"
proof -
  have "year a \<in> set (sort (remdups (map year agg)))" using assms(1) by simp
  then have "find (\<lambda>s. stat_year s = year a)
               (map (year_stats_row mode agg) (sort (remdups (map year agg)))) = Some st"
    unfolding st_def by (rule find_year_stats_row)
  then show "year s = year a" "mean_salary s = mean_salary a" "sample_size s = sample_size a"
    "group_key s = group_key a"
    "row_year_mean s = year_mean st" "row_year_std s = year_std st"
    "z_score s = zscore fl (mean_salary a) (year_mean st) (year_std st)"
    by (simp_all add: s_def score_row_def)
qed

lemma normalize_Inr:
  assumes "normalize mode fl agg = Inr res"
  defines "stats \<equiv> map (year_stats_row mode agg) (sort (remdups (map year agg)))"
  defines "scored \<equiv> map (score_row fl stats) agg"
  shows "table res = sort_key (\<lambda>r. (year r, rank r)) (map (rank_row scored) scored)"
    and "year_stats res = sort_key stat_year stats"
  using assms(1) unfolding stats_def scored_def normalize_def Let_def
  by (auto split: if_splits)

lemma normalize_table_row:
  assumes "normalize mode fl agg = Inr res" and "r \<in> set (table res)"
  shows "\<exists>a \<in> set agg. year r = year a \<and> mean_salary r = mean_salary a \<and>
           row_year_mean r = year_mean (year_stats_row mode agg (year a)) \<and>
           row_year_std r = year_std (year_stats_row mode agg (year a)) \<and>
           z_score r = zscore fl (mean_salary a) (year_mean (year_stats_row mode agg (year a)))
                         (year_std (year_stats_row mode agg (year a))) \<and>
           year_stats_row mode agg (year a) \<in> set (year_stats res)"
proof -
  let ?stats = "map (year_stats_row mode agg) (sort (remdups (map year agg)))"
  let ?scored = "map (score_row fl ?stats) agg"
  from assms normalize_Inr[OF assms(1)] obtain a where a: "a \<in> set agg"
    and r: "r = rank_row ?scored (score_row fl ?stats a)"
    by auto
  have "year_stats_row mode agg (year a) \<in> set (year_stats res)"
    using a normalize_Inr(2)[OF assms(1)] by simp
  then show ?thesis
    using a score_row_fields[OF a, of fl mode] unfolding r by (intro bexI[of _ a]) simp_all
qed

lemma compute_Inr:
  assumes "compute_relative_performance_index csv year_start year_end universities categories
             courses salary_column group_by min_sample_size mode fl = Inr res"
  shows "\<exists>df labelled.
           load_data_rpi csv year_start year_end universities categories courses = Inr df \<and>
             normalize mode fl (aggregate_groups labelled salary_column group_by min_sample_size
                                  (clean salary_column group_by df)) = Inr res"
  using assms unfolding compute_relative_performance_index_def Let_def
  by (auto split: sum.splits if_splits)


lemma score_row_year [simp]: "year (score_row fl stats a) = year a"
  and score_row_mean_salary [simp]: "mean_salary (score_row fl stats a) = mean_salary a"
  by (simp_all add: score_row_def split: option.splits prod.splits)

lemma normalize_table_mset:
  assumes "normalize mode fl agg = Inr res"
  shows "mset (map mean_salary (filter (\<lambda>r. year r = y) (table res)))
         = mset (map mean_salary (filter (\<lambda>a. year a = y) agg))"
proof -
  let ?stats = "map (year_stats_row mode agg) (sort (remdups (map year agg)))"
  let ?scored = "map (score_row fl ?stats) agg"
  have "mset (map mean_salary (filter (\<lambda>r. year r = y) (table res)))
        = image_mset mean_salary (filter_mset (\<lambda>r. year r = y) (mset (table res)))"
    by simp
  also have "mset (table res) = image_mset (\<lambda>a. rank_row ?scored (score_row fl ?stats a)) (mset agg)"
    by (simp add: normalize_Inr(1)[OF assms] multiset.map_comp comp_def)
  also have "image_mset mean_salary (filter_mset (\<lambda>r. year r = y)
               (image_mset (\<lambda>a. rank_row ?scored (score_row fl ?stats a)) (mset agg)))
             = image_mset mean_salary (filter_mset (\<lambda>a. year a = y) (mset agg))"
    by (simp add: filter_mset_image_mset multiset.map_comp comp_def)
  finally show ?thesis by simp
qed

lemma np_mean_mset: "mset xs = mset ys \<Longrightarrow> np_mean xs = np_mean ys"
proof -
  assume eq: "mset xs = mset ys"
  then have "sum_list xs = sum_list ys" by (metis sum_mset_sum_list)
  moreover from eq have "length xs = length ys" by (rule mset_eq_length)
  ultimately show ?thesis by (auto simp: np_mean_def)
qed

lemma np_std_mset: "mset xs = mset ys \<Longrightarrow> np_std xs = np_std ys"
proof -
  assume eq: "mset xs = mset ys"
  then have s: "sum_list xs = sum_list ys" by (metis sum_mset_sum_list)
  from eq have l: "length xs = length ys" by (rule mset_eq_length)
  have "mset (map f xs) = mset (map f ys)" for f :: "real \<Rightarrow> real"
    using eq by (metis mset_map)
  then have "sum_list (map f xs) = sum_list (map f ys)" for f :: "real \<Rightarrow> real"
    by (metis sum_mset_sum_list)
  with s l show ?thesis by (auto simp: np_std_def Let_def)
qed

lemma sum_list_affine:
  fixes xs :: "real list"
  shows "sum_list (map (\<lambda>x. (x - c) / d) xs) = (sum_list xs - real (length xs) * c) / d"
proof (induction xs)
  case Nil
  show ?case by simp
next
  case (Cons a xs)
  have "(a - c) / d + (sum_list xs - real (length xs) * c) / d
        = ((a - c) + (sum_list xs - real (length xs) * c)) / d"
    by (simp add: add_divide_distrib)
  also have "\<dots> = (sum_list (a # xs) - real (length (a # xs)) * c) / d"
    by (simp add: algebra_simps)
  finally show ?case using Cons by simp
qed

lemma standardised_mean:
  fixes vals :: "real list"
  assumes "vals \<noteq> []"
  defines "mu \<equiv> sum_list vals / real (length vals)"
  shows "np_mean (map (\<lambda>x. (x - mu) / sd) vals) = Fin 0"
proof -
  have "real (length vals) * mu = sum_list vals" using assms(1) by (simp add: mu_def)
  then have "sum_list (map (\<lambda>x. (x - mu) / sd) vals) = 0"
    by (simp add: sum_list_affine)
  then show ?thesis using assms(1) by (simp add: np_mean_def)
qed

lemma sum_list_div_const:
  fixes f :: "real \<Rightarrow> real"
  shows "sum_list (map (\<lambda>x. f x / c) xs) = sum_list (map f xs) / c"
  by (induction xs) (simp_all add: add_divide_distrib)

lemma standardised_std:
  fixes vals :: "real list"
  assumes "vals \<noteq> []"
  defines "mu \<equiv> sum_list vals / real (length vals)"
  defines "sd \<equiv> sqrt (sum_list (map (\<lambda>x. (x - mu)\<^sup>2) vals) / real (length vals))"
  assumes "0 < sd"
  shows "np_std (map (\<lambda>x. (x - mu) / sd) vals) = Fin 1"
proof -
  let ?n = "real (length vals)"
  let ?zs = "map (\<lambda>x. (x - mu) / sd) vals"
  let ?ss = "sum_list (map (\<lambda>x. (x - mu)\<^sup>2) vals)"
  have n: "0 < ?n" using assms(1) by simp
  have "real (length vals) * mu = sum_list vals" using assms(1) by (simp add: mu_def)
  then have m0: "sum_list ?zs / real (length ?zs) = 0" by (simp add: sum_list_affine)
  have ssnn: "0 \<le> ?ss / ?n" by (intro divide_nonneg_nonneg sum_list_nonneg) auto
  have sd2: "sd\<^sup>2 = ?ss / ?n" unfolding sd_def using ssnn by simp
  have "sum_list (map (\<lambda>z. (z - 0)\<^sup>2) ?zs) = sum_list (map (\<lambda>x. (x - mu)\<^sup>2 / sd\<^sup>2) vals)"
    by (simp add: comp_def power_divide)
  also have "\<dots> = ?ss / sd\<^sup>2" by (rule sum_list_div_const)
  finally have "sum_list (map (\<lambda>z. (z - 0)\<^sup>2) ?zs) / real (length ?zs) = (?ss / ?n) / sd\<^sup>2"
    by simp
  also have "\<dots> = sd\<^sup>2 / sd\<^sup>2" by (simp only: sd2)
  also have "\<dots> = 1" using assms(4) by simp
  finally have v1: "sum_list (map (\<lambda>z. (z - 0)\<^sup>2) ?zs) / real (length ?zs) = 1" .
  have "np_std ?zs = Fin (sqrt (sum_list (map (\<lambda>z. (z - 0)\<^sup>2) ?zs) / real (length ?zs)))"
    using assms(1) unfolding np_std_def Let_def m0 by simp
  then show ?thesis by (simp only: v1 real_sqrt_one)
qed

lemma year_stats_row_unweighted:
  assumes "mode \<noteq> ''sample_size''" and "filter (\<lambda>a. year a = y) agg \<noteq> []"
  defines "vals \<equiv> map mean_salary (filter (\<lambda>a. year a = y) agg)"
  shows "year_mean (year_stats_row mode agg y) = Fin (sum_list vals / real (length vals))"
    and "year_std (year_stats_row mode agg y)
         = Fin (sqrt (sum_list (map (\<lambda>x. (x - sum_list vals / real (length vals))\<^sup>2) vals)
                      / real (length vals)))"
    and "n_groups (year_stats_row mode agg y) = length vals"
  using assms(1,2) unfolding vals_def
  by (simp_all add: year_stats_row_def Let_def np_mean_def np_std_def)

text \<open>
  C3, as amended. With \<open>weight_mode = "none"\<close>, take a year with at least two groups whose
  baseline standard deviation is at least the floor and is positive (as it is whenever the
  floor is positive). The z-scores of that year's rows are finite numbers whose arithmetic
  mean is 0 and whose population standard deviation is 1.
\<close>

theorem z_scores_standardised:
  assumes c: "compute_relative_performance_index csv year_start year_end universities categories
                courses salary_column group_by min_sample_size mode zscore_floor_std = Inr res"
    and mode: "mode = ''none''"
    and s: "s \<in> set (year_stats res)"
    and n: "2 \<le> n_groups s"
    and sd: "year_std s = Fin sd"
    and notfloored: "zscore_floor_std \<le> sd"
    and sdpos: "0 < sd"
  shows "\<exists>zs. map z_score (filter (\<lambda>r. year r = stat_year s) (table res)) = map Fin zs \<and>
              length zs = n_groups s \<and> np_mean zs = Fin 0 \<and> np_std zs = Fin 1"
proof -
  from compute_Inr[OF c] obtain df labelled where
    nm: "normalize mode zscore_floor_std
          (aggregate_groups labelled salary_column group_by min_sample_size (clean salary_column group_by df))
        = Inr res" by blast
  define agg where "agg = aggregate_groups labelled salary_column group_by min_sample_size
                            (clean salary_column group_by df)"
  have nm': "normalize mode zscore_floor_std agg = Inr res" using nm by (simp add: agg_def)
  define y where "y = stat_year s"
  from s normalize_Inr(2)[OF nm'] obtain y' where y': "y' \<in> set (map year agg)"
    and s_eq': "s = year_stats_row mode agg y'" by auto
  have s_eq: "s = year_stats_row mode agg y" and yin: "y \<in> set (map year agg)"
    using y' s_eq' by (simp_all add: y_def)
  define sub where "sub = filter (\<lambda>a. year a = y) agg"
  define vals where "vals = map mean_salary sub"
  have ne: "sub \<noteq> []" using yin by (auto simp: sub_def filter_empty_conv)
  have vne: "vals \<noteq> []" using ne by (simp add: vals_def)
  define mu where "mu = sum_list vals / real (length vals)"
  have nons: "mode \<noteq> ''sample_size''" using mode by simp
  have ym: "year_mean s = Fin mu"
    using year_stats_row_unweighted(1)[OF nons, of y agg] ne
    by (simp add: s_eq sub_def vals_def mu_def)
  have ys: "year_std s = Fin (sqrt (sum_list (map (\<lambda>x. (x - mu)\<^sup>2) vals) / real (length vals)))"
    using year_stats_row_unweighted(2)[OF nons, of y agg] ne
    by (simp add: s_eq sub_def vals_def mu_def)
  have ng: "n_groups s = length vals"
    using year_stats_row_unweighted(3)[OF nons, of y agg] ne
    by (simp add: s_eq sub_def vals_def)
  from ys sd have sd_eq: "sd = sqrt (sum_list (map (\<lambda>x. (x - mu)\<^sup>2) vals) / real (length vals))"
    by simp
  define rs where "rs = filter (\<lambda>r. year r = y) (table res)"
  define g where "g = (\<lambda>x. (x - mu) / sd)"
  define zs where "zs = map g (map mean_salary rs)"
  have zrow: "z_score r = Fin (g (mean_salary r))" if "r \<in> set rs" for r
  proof -
    from that have rt: "r \<in> set (table res)" and ry: "year r = y" by (simp_all add: rs_def)
    from normalize_table_row[OF nm' rt] obtain a where "a \<in> set agg" and ya: "year r = year a"
      and ma: "mean_salary r = mean_salary a"
      and z: "z_score r = zscore zscore_floor_std (mean_salary a)
                            (year_mean (year_stats_row mode agg (year a)))
                            (year_std (year_stats_row mode agg (year a)))"
      by blast
    from ya ry have "year_stats_row mode agg (year a) = s" by (simp add: s_eq)
    with z have "z_score r = zscore zscore_floor_std (mean_salary r) (Fin mu) (Fin sd)"
      by (simp add: ym sd ma)
    then show ?thesis using notfloored sdpos by (simp add: zscore_Fin g_def)
  qed
  have m1: "map z_score rs = map Fin zs"
    unfolding zs_def using zrow by (induction rs) auto
  have ms: "mset (map mean_salary rs) = mset vals"
    unfolding rs_def vals_def sub_def by (rule normalize_table_mset[OF nm'])
  then have mz: "mset zs = mset (map g vals)"
    unfolding zs_def by (metis mset_map)
  have len: "length zs = n_groups s"
    using mset_eq_length[OF ms] by (simp add: zs_def ng)
  have mean0: "np_mean zs = Fin 0"
    using np_mean_mset[OF mz] standardised_mean[OF vne, of sd] by (simp add: g_def mu_def)
  have std1: "np_std zs = Fin 1"
    using np_std_mset[OF mz] standardised_std[OF vne] sdpos
    unfolding g_def mu_def sd_eq by simp
  show ?thesis using m1 len mean0 std1 unfolding rs_def y_def by blast
qed

text \<open>The definitions a concrete run of the pipeline unfolds.\<close>

lemmas rpi_eval_defs = compute_relative_performance_index_def load_data_rpi_def filter_year_start_def
  filter_year_end_def filter_isin_def clean_def dropna_def update_column_def update_cell_def
  select_rows_def cell_of_def coerce_def astype_int_def int_trunc_def aggregate_groups_def
  groupby_def key_of_def aggregate_def numbers_def List.map_filter_def int_of_cell_def
  normalize_def year_stats_row_def np_mean_def np_std_def score_row_def rank_row_def zscore_def
  std_safe_def fillna_def dense_rank_def pct_rank_def fmul_def Let_def

lemma rpi_example_eval:
  "compute_relative_performance_index rpi_example None None None None None
     ''gross_monthly_median'' [''course''] 1 ''none'' (1 / 10 ^ 9) = Inr rpi_example_result"
  by (simp add: rpi_eval_defs rpi_example_def rpi_example_result_def)


theorem z_scores_standardised_witness:
  "compute_relative_performance_index rpi_example None None None None None
     ''gross_monthly_median'' [''course''] 1 ''none'' (1 / 10 ^ 9) = Inr rpi_example_result \<and>
   hd (year_stats rpi_example_result) \<in> set (year_stats rpi_example_result) \<and>
   2 \<le> n_groups (hd (year_stats rpi_example_result)) \<and>
   year_std (hd (year_stats rpi_example_result)) = Fin 1 \<and>
   (\<exists>zs. map z_score (filter (\<lambda>r. year r = stat_year (hd (year_stats rpi_example_result)))
                        (table rpi_example_result)) = map Fin zs \<and>
         length zs = n_groups (hd (year_stats rpi_example_result)) \<and>
         np_mean zs = Fin 0 \<and> np_std zs = Fin 1)"
proof -
  let ?s = "hd (year_stats rpi_example_result)"
  have mem: "?s \<in> set (year_stats rpi_example_result)" by (simp add: rpi_example_result_def)
  have n: "2 \<le> n_groups ?s" and sd: "year_std ?s = Fin 1"
    by (simp_all add: rpi_example_result_def)
  have le: "(1::real) / 10 ^ 9 \<le> 1" and pos: "(0::real) < 1" by simp_all
  from z_scores_standardised[OF rpi_example_eval refl mem n sd le pos] mem n sd rpi_example_eval
  show ?thesis by blast
qed

text \<open>
  C3 as stated fails where the floor is not positive: with the floor 0 and three groups of
  the same mean, the baseline standard deviation 0 is at least the floor, and the z-scores
  are 0, 0, 0, whose population standard deviation is 0.
\<close>

theorem z_scores_standardised_counterexample:
  "compute_relative_performance_index tied_example None None None None None
     ''gross_monthly_median'' [''course''] 1 ''none'' 0 = Inr tied_floor0_result \<and>
   map n_groups (year_stats tied_floor0_result) = [3] \<and>
   map year_std (year_stats tied_floor0_result) = [Fin 0] \<and>
   map year (table tied_floor0_result) = [2020, 2020, 2020] \<and>
   map z_score (table tied_floor0_result) = [Fin 0, Fin 0, Fin 0] \<and>
   np_std [0, 0, 0] = Fin 0 \<and> Fin 0 \<noteq> Fin 1"
  by (simp add: rpi_eval_defs tied_example_def tied_floor0_result_def tied_row_def)

lemma filter_compare_columns:
  "filter_compare c p df = Inr out \<Longrightarrow> columns out = columns df"
  by (auto simp: filter_compare_def columns_select_rows split: sum.splits)

lemma load_data_rpi_columns:
  assumes "load_data_rpi csv year_start year_end universities categories courses = Inr df"
  shows "columns df = columns csv"
proof -
  from assms obtain df1 df2 df3 df4 where
    "filter_year_start year_start csv = Inr df1"
    "filter_year_end year_end df1 = Inr df2"
    "filter_isin ''university'' universities df2 = Inr df3"
    "filter_isin ''course_category'' categories df3 = Inr df4"
    "filter_isin ''course'' courses df4 = Inr df"
    by (auto simp: load_data_rpi_def split: sum.splits)
  then have "columns df1 = columns csv" "columns df2 = columns df1" "columns df3 = columns df2"
    "columns df4 = columns df3" "columns df = columns df4"
    by (auto simp: filter_year_start_def filter_year_end_def
        dest: filter_compare_columns filter_isin_Inr split: option.splits)
  then show ?thesis by simp
qed

lemma normalize_not_ValueError: "normalize mode fl agg \<noteq> Inl (ValueError msg m)"
  by (simp add: normalize_def Let_def)

text \<open>
  Grouping by course and by course category at once, on data with all the columns, ends
  in the ValueError of \<^verbatim>\<open>reset_index\<close>, which is not the one of the check of the columns.
\<close>

lemma label_merge_refuses:
  "compute_relative_performance_index
     \<lparr>columns = [''year'', ''course'', ''course_category'', ''gross_monthly_median''],
      rows = [[(''year'', Num 2020), (''course'', Str ''A''), (''course_category'', Str ''K''),
               (''gross_monthly_median'', Num 1)]]\<rparr>
     None None None None None ''gross_monthly_median'' [''course'', ''course_category''] 1
     ''none'' (1 / 10 ^ 9)
   = Inl (ValueError ''cannot insert, already exists'' [''course_category''])"
  by (simp add: compute_relative_performance_index_def load_data_rpi_def filter_year_start_def
      filter_year_end_def filter_isin_def)

text \<open>
  The check of the required columns, for a call that reaches it: when the loader's own
  filters succeed, a call whose year, salary or grouping columns are not all present ends
  with the ValueError that lists every missing one of them, in the order year, salary
  column, grouping columns; when all of them are present that error is not raised.
\<close>

lemma missing_columns_check:
  assumes "load_data_rpi csv year_start year_end universities categories courses = Inr df"
  shows "(filter (\<lambda>c. c \<notin> set (columns csv)) (''year'' # salary_column # group_by) \<noteq> [] \<longrightarrow>
            compute_relative_performance_index csv year_start year_end universities categories
              courses salary_column group_by min_sample_size mode zscore_floor_std
            = Inl (ValueError ''missing required columns''
                     (filter (\<lambda>c. c \<notin> set (columns csv))
                        (''year'' # salary_column # group_by)))) \<and>
         (filter (\<lambda>c. c \<notin> set (columns csv)) (''year'' # salary_column # group_by) = [] \<longrightarrow>
            (\<forall>m. compute_relative_performance_index csv year_start year_end universities categories
                   courses salary_column group_by min_sample_size mode zscore_floor_std
                 \<noteq> Inl (ValueError ''missing required columns'' m)))"
  using assms load_data_rpi_columns[OF assms]
  by (simp add: compute_relative_performance_index_def Let_def normalize_not_ValueError)

text \<open>
  On data that has neither a course column nor the salary column, the call that groups by
  course and gives no course filter is told of both missing columns.
\<close>

lemma missing_columns_named_without_filter:
  "compute_relative_performance_index sparse_example None None None None None
     ''gross_monthly_median'' [''course''] 1 ''none'' (1 / 10 ^ 9)
   = Inl (ValueError ''missing required columns'' [''gross_monthly_median'', ''course''])"
  by (simp add: compute_relative_performance_index_def load_data_rpi_def filter_year_start_def
      filter_year_end_def filter_isin_def sparse_example_def)

text \<open>
  C7 fails on the code. The same call with a course filter never reaches the check: the
  loader runs first and indexes the course column, so the call ends with the loader's
  KeyError, which names the course column only and not the missing salary column.
\<close>

theorem missing_columns_loader_error:
  "compute_relative_performance_index sparse_example None None None None (Some [''Nursing''])
     ''gross_monthly_median'' [''course''] 1 ''none'' (1 / 10 ^ 9) = Inl (KeyError [''course'']) \<and>
   ''gross_monthly_median'' \<notin> set (columns sparse_example) \<and>
   ''gross_monthly_median'' \<notin> set [''course'']"
  by (simp add: compute_relative_performance_index_def load_data_rpi_def filter_year_start_def
      filter_year_end_def filter_isin_def sparse_example_def)

lemma normalize_table_set:
  assumes "normalize mode fl agg = Inr res"
  defines "stats \<equiv> map (year_stats_row mode agg) (sort (remdups (map year agg)))"
  defines "scored \<equiv> map (score_row fl stats) agg"
  shows "set (table res) = rank_row scored ` set scored" and "length (table res) = length agg"
    and "set scored = score_row fl stats ` set agg" and "length scored = length agg"
  using normalize_Inr[OF assms(1)] unfolding stats_def scored_def by (simp_all add: image_image)

lemma sum_list_all_equal:
  fixes f :: "'a \<Rightarrow> real"
  assumes "\<forall>x \<in> set xs. f x = c"
  shows "sum_list (map f xs) = real (length xs) * c"
  using assms by (induction xs) (simp_all add: algebra_simps)

lemma sum_list_all_zero:
  fixes f :: "'a \<Rightarrow> real"
  assumes "\<forall>x \<in> set xs. f x = 0"
  shows "sum_list (map f xs) = 0"
  using sum_list_all_equal[OF assms] by simp

lemma year_stats_row_tied:
  assumes a: "a \<in> set agg" and pos: "\<forall>b \<in> set agg. 1 \<le> sample_size b"
    and tied: "\<forall>b \<in> set agg. year b = year a \<longrightarrow> mean_salary b = m"
  shows "year_mean (year_stats_row mode agg (year a)) = Fin m \<and>
         year_std (year_stats_row mode agg (year a)) = Fin 0"
proof -
  let ?sub = "filter (\<lambda>b. year b = year a) agg"
  have mem: "a \<in> set ?sub" using a by simp
  then have ne: "?sub \<noteq> []" by (metis empty_iff list.set(1))
  have all: "\<forall>b \<in> set ?sub. mean_salary b = m" using tied by simp
  show ?thesis
  proof (cases "mode = ''sample_size''")
    case False
    have s: "sum_list (map mean_salary ?sub) = real (length ?sub) * m"
      using all by (rule sum_list_all_equal)
    have mean: "sum_list (map mean_salary ?sub) / real (length ?sub) = m"
      using ne by (simp add: s)
    have ss: "sum_list (map ((\<lambda>x. (x - m)\<^sup>2) \<circ> mean_salary) ?sub) = 0"
      using all by (intro sum_list_all_zero) simp
    show ?thesis using False ne
      by (simp add: year_stats_row_def Let_def np_mean_def np_std_def mean ss)
  next
    case True
    let ?w = "\<lambda>b. real (sample_size b)"
    let ?W = "sum_list (map ?w ?sub)"
    have wpos: "\<forall>b \<in> set ?sub. 0 < ?w b" using pos by fastforce
    have wsum: "0 < ?W" using ne wpos by (rule sum_list_pos_weights)
    have e: "map (\<lambda>b. ?w b * mean_salary b) ?sub = map (\<lambda>b. ?w b * m) ?sub"
      using all by (intro map_cong) simp_all
    have "sum_list (map (\<lambda>b. ?w b * m) ?sub) = ?W * m"
      by (rule sum_list_mult_const)
    then have "sum_list (map (\<lambda>b. ?w b * mean_salary b) ?sub) = ?W * m"
      by (simp only: e)
    then have mean: "sum_list (map (\<lambda>b. ?w b * mean_salary b) ?sub) / ?W = m"
      using wsum by simp
    have ss: "sum_list (map (\<lambda>b. ?w b * (mean_salary b - m)\<^sup>2) ?sub) = 0"
      using all by (intro sum_list_all_zero) simp
    have z1: "map2 (*) (map ?w ?sub) (map mean_salary ?sub) = map (\<lambda>b. ?w b * mean_salary b) ?sub"
      by (simp add: zip_map_map zip_same_conv_map)
    have z2: "map2 (\<lambda>wi vi. wi * (vi - m)\<^sup>2) (map ?w ?sub) (map mean_salary ?sub)
              = map (\<lambda>b. ?w b * (mean_salary b - m)\<^sup>2) ?sub"
      by (simp add: zip_map_map zip_same_conv_map)
    have "weighted_mean_std (map mean_salary ?sub) (map ?w ?sub) = (Fin m, Fin 0)"
      using wsum unfolding weighted_mean_std_def Let_def z1 mean z2 ss by simp
    then show ?thesis using True by (simp add: year_stats_row_def Let_def)
  qed
qed

lemma dense_rank_all_tied: "\<forall>v \<in> set zs. v = Fin c \<Longrightarrow> dense_rank zs (Fin c) = 1"
  by (auto simp: dense_rank_def filter_empty_conv)

lemma pct_rank_all_tied:
  assumes "\<forall>v \<in> set zs. v = Fin c" and "zs \<noteq> []"
  shows "pct_rank zs (Fin c) = Fin (((real (length zs) + 1) / 2) / real (length zs))"
proof -
  have v: "filter (\<lambda>v. v \<noteq> NaN) zs = zs" using assms(1) by (auto simp: filter_id_conv)
  have b: "filter (\<lambda>v. fless v (Fin c)) zs = []" using assms(1) by (auto simp: filter_empty_conv)
  have t: "filter (\<lambda>v. v = Fin c) zs = zs" using assms(1) by (auto simp: filter_id_conv)
  show ?thesis by (simp add: pct_rank_def Let_def v b t)
qed

text \<open>
  C2, as amended. When the table has exactly three groups, all of one year and of the same
  mean value, the baseline standard deviation of that year is 0 and every group has z-score
  0.0, dense rank 1 and percentile 200/3 (about 66.67): the average of the positions 1, 2, 3
  is 2, and 2 of 3 is two thirds.
\<close>

theorem tied_groups:
  assumes c: "compute_relative_performance_index csv year_start year_end universities categories
                courses salary_column group_by min_sample_size mode zscore_floor_std = Inr res"
    and three: "length (table res) = 3"
    and tied: "\<forall>r \<in> set (table res). year r = y \<and> mean_salary r = m"
  shows "\<forall>r \<in> set (table res).
           row_year_std r = Fin 0 \<and> z_score r = Fin 0 \<and> rank r = 1 \<and>
           percentile r = Fin (200 / 3)"
proof
  fix r assume r: "r \<in> set (table res)"
  from compute_Inr[OF c] obtain df labelled where
    nm: "normalize mode zscore_floor_std
          (aggregate_groups labelled salary_column group_by min_sample_size (clean salary_column group_by df))
        = Inr res" by blast
  define agg where "agg = aggregate_groups labelled salary_column group_by min_sample_size
                            (clean salary_column group_by df)"
  have nm': "normalize mode zscore_floor_std agg = Inr res" using nm by (simp add: agg_def)
  define stats where "stats = map (year_stats_row mode agg) (sort (remdups (map year agg)))"
  define scored where "scored = map (score_row zscore_floor_std stats) agg"
  note ts = normalize_table_set[OF nm', folded stats_def scored_def]
  have pos: "\<forall>b \<in> set agg. 1 \<le> sample_size b"
    unfolding agg_def using aggregate_groups_sample_size by blast
  have agg_tied: "year a = y \<and> mean_salary a = m" if "a \<in> set agg" for a
  proof -
    from that have "rank_row scored (score_row zscore_floor_std stats a) \<in> set (table res)"
      using ts(1,3) by blast
    with tied show ?thesis by fastforce
  qed
  have sc: "z_score s = Fin 0 \<and> row_year_std s = Fin 0 \<and> year s = y" if "s \<in> set scored" for s
  proof -
    from that ts(3) obtain a where a: "a \<in> set agg" and s: "s = score_row zscore_floor_std stats a"
      by blast
    have "\<forall>b \<in> set agg. year b = year a \<longrightarrow> mean_salary b = mean_salary a"
      using agg_tied a by simp
    from year_stats_row_tied[OF a pos this, of mode]
    have "year_mean (year_stats_row mode agg (year a)) = Fin (mean_salary a)"
      and "year_std (year_stats_row mode agg (year a)) = Fin 0" by simp_all
    with score_row_fields[OF a, of zscore_floor_std mode] agg_tied[OF a]
    show ?thesis unfolding s stats_def by (simp add: zscore_Fin)
  qed
  from r ts(1) obtain s where s: "s \<in> set scored" and rs: "r = rank_row scored s" by blast
  define zs where "zs = map z_score (filter (\<lambda>t. year t = year s) scored)"
  have "filter (\<lambda>t. year t = year s) scored = scored"
    using sc s by (auto simp: filter_id_conv)
  then have zs_len: "length zs = 3" using ts(2,4) three by (simp add: zs_def)
  have zs_all: "\<forall>v \<in> set zs. v = Fin 0" using sc by (auto simp: zs_def)
  have zs_ne: "zs \<noteq> []" using zs_len by auto
  have rk: "rank r = dense_rank zs (Fin 0)"
    and pc: "percentile r = fmul (pct_rank zs (Fin 0)) 100"
    using sc[OF s] by (simp_all add: rs rank_row_def Let_def zs_def)
  have "rank r = 1" using rk dense_rank_all_tied[OF zs_all] by simp
  moreover have "percentile r = Fin (200 / 3)"
    using pc pct_rank_all_tied[OF zs_all zs_ne] by (simp add: zs_len fmul_def)
  moreover have "z_score r = Fin 0" "row_year_std r = Fin 0" using sc[OF s] by (simp_all add: rs)
  ultimately show "row_year_std r = Fin 0 \<and> z_score r = Fin 0 \<and> rank r = 1 \<and>
           percentile r = Fin (200 / 3)" by simp
qed

lemma tied_example_eval:
  "compute_relative_performance_index tied_example None None None None None
     ''gross_monthly_median'' [''course''] 1 ''none'' (1 / 10 ^ 9) = Inr tied_example_result"
  by (simp add: rpi_eval_defs tied_example_def tied_example_result_def tied_row_def)

text \<open>
  C2 as stated fails on the percentile: for three tied groups the code reports 200/3, not 50.
\<close>

theorem tied_groups_counterexample:
  "compute_relative_performance_index tied_example None None None None None
     ''gross_monthly_median'' [''course''] 1 ''none'' (1 / 10 ^ 9) = Inr tied_example_result \<and>
   map mean_salary (table tied_example_result) = [5, 5, 5] \<and>
   map percentile (table tied_example_result) = [Fin (200 / 3), Fin (200 / 3), Fin (200 / 3)] \<and>
   Fin (200 / 3) \<noteq> Fin 50"
  using tied_example_eval by (simp add: tied_example_result_def tied_row_def)

theorem tied_groups_witness:
  "compute_relative_performance_index tied_example None None None None None
     ''gross_monthly_median'' [''course''] 1 ''none'' (1 / 10 ^ 9) = Inr tied_example_result \<and>
   length (table tied_example_result) = 3 \<and>
   map year (table tied_example_result) = [2020, 2020, 2020] \<and>
   map mean_salary (table tied_example_result) = [5, 5, 5] \<and>
   tied_row ''B'' \<in> set (table tied_example_result) \<and>
   row_year_std (tied_row ''B'') = Fin 0 \<and> z_score (tied_row ''B'') = Fin 0 \<and>
   rank (tied_row ''B'') = 1 \<and> percentile (tied_row ''B'') = Fin (200 / 3)"
proof -
  have three: "length (table tied_example_result) = 3"
    and ys: "map year (table tied_example_result) = [2020, 2020, 2020]"
    and ms: "map mean_salary (table tied_example_result) = [5, 5, 5]"
    and mem: "tied_row ''B'' \<in> set (table tied_example_result)"
    by (simp_all add: tied_example_result_def tied_row_def)
  have tied: "\<forall>r \<in> set (table tied_example_result). year r = 2020 \<and> mean_salary r = 5"
    by (simp add: tied_example_result_def tied_row_def)
  from tied_groups[OF tied_example_eval three tied] mem
  have "row_year_std (tied_row ''B'') = Fin 0 \<and> z_score (tied_row ''B'') = Fin 0 \<and>
        rank (tied_row ''B'') = 1 \<and> percentile (tied_row ''B'') = Fin (200 / 3)"
    by blast
  with tied_example_eval three ys ms mem show ?thesis by blast
qed

section \<open>Properties of the focus selection\<close>

lemma name_group_stats [simp]: "name (group_stats tbl c g) = g"
  by (simp add: group_stats_def Let_def)

lemma map_name_group_stats: "map name (map (group_stats tbl c) gs) = gs"
  by (simp add: comp_def)










section \<open>Properties of the employment and salary trade-off\<close>

lemma tradeoff_Inr:
  assumes "employment_salary_tradeoff polyfit csv year_start year_end categories min_sample_size
             add_trendline = Inr res"
  shows "\<exists>df s. load_data_tradeoff csv year_start year_end categories = Inr df \<and>
           build_summary df min_sample_size = Inr s \<and>
           summary res = label_quadrants s \<and>
           correlation res = correlation_of s \<and>
           correlation_weighted res = weighted_correlation_of s \<and>
           trendline_of polyfit add_trendline s = Inr (trendline res) \<and>
           residuals_of polyfit s = Inr (salary_residual res)"
  using assms unfolding employment_salary_tradeoff_def
  by (auto split: sum.splits prod.splits)

lemma label_row_fields [simp]:
  "avg_median_salary (label_row sm em s) = avg_median_salary s"
  "avg_employment_rate (label_row sm em s) = avg_employment_rate s"
  "category_sample_size (label_row sm em s) = category_sample_size s"
  "course_category (label_row sm em s) = course_category s"
  "employment_rate_std (label_row sm em s) = employment_rate_std s"
  "median_salary_std (label_row sm em s) = median_salary_std s"
  "salary_level (label_row sm em s) = level (avg_median_salary s) sm"
  "employment_level (label_row sm em s) = level (avg_employment_rate s) em"
  by (simp_all add: label_row_def)

lemma label_quadrants_columns:
  "length (label_quadrants s) = length s"
  "map avg_median_salary (label_quadrants s) = map avg_median_salary s"
  "map avg_employment_rate (label_quadrants s) = map avg_employment_rate s"
  "map category_sample_size (label_quadrants s) = map category_sample_size s"
  by (simp_all add: label_quadrants_def comp_def)



lemma sum_list_scaled:
  fixes f :: "'a \<Rightarrow> real"
  shows "sum_list (map (\<lambda>q. c * f q) xs) = c * sum_list (map f xs)"
  by (induction xs) (simp_all add: algebra_simps)

lemma pearson_columns:
  "pearson (map fx s) (map fy s) =
     (let mx = sum_list (map fx s) / real (length s);
          my = sum_list (map fy s) / real (length s);
          sxy = sum_list (map (\<lambda>q. (fx q - mx) * (fy q - my)) s);
          sxx = sum_list (map (\<lambda>q. (fx q - mx)\<^sup>2) s);
          syy = sum_list (map (\<lambda>q. (fy q - my)\<^sup>2) s)
      in if sqrt (sxx * syy) = 0 then NaN else Fin (sxy / sqrt (sxx * syy)))"
  by (simp add: pearson_def Let_def zip_map_map zip_same_conv_map comp_def)

lemma weighted_correlation_uniform:
  assumes n: "2 \<le> length s"
    and w: "\<forall>q \<in> set s. category_sample_size q = c" and c: "0 < c"
  shows "weighted_correlation_of s =
           (case pearson (map avg_employment_rate s) (map avg_median_salary s) of
              Fin r \<Rightarrow> Some r | _ \<Rightarrow> None)"
proof -
  let ?n = "real (length s)" and ?c = "real c"
  let ?w = "\<lambda>q. real (category_sample_size q)"
  let ?fx = avg_employment_rate and ?fy = avg_median_salary
  let ?mx = "sum_list (map ?fx s) / ?n" and ?my = "sum_list (map ?fy s) / ?n"
  let ?sxy = "sum_list (map (\<lambda>q. (?fx q - ?mx) * (?fy q - ?my)) s)"
  let ?sxx = "sum_list (map (\<lambda>q. (?fx q - ?mx)\<^sup>2) s)"
  let ?syy = "sum_list (map (\<lambda>q. (?fy q - ?my)\<^sup>2) s)"
  have npos: "0 < ?n" using n by (cases s) auto
  have cpos: "0 < ?c" using c by simp
  have weq: "map (\<lambda>q. ?w q * g q) s = map (\<lambda>q. ?c * g q) s" for g :: "summary_row \<Rightarrow> real"
    using w by (intro map_cong) simp_all
  have wsum: "sum_list (map (\<lambda>q. ?w q * g q) s) = ?c * sum_list (map g s)"
    for g :: "summary_row \<Rightarrow> real"
    unfolding weq by (rule sum_list_scaled)
  have W: "sum_list (map ?w s) = ?n * ?c"
    using w by (intro sum_list_all_equal) simp
  have Wpos: "0 < ?n * ?c" using npos cpos by simp
  have xm: "sum_list (map (\<lambda>q. ?w q * ?fx q) s) / (?n * ?c) = ?mx"
    using cpos by (simp add: wsum)
  have ym: "sum_list (map (\<lambda>q. ?w q * ?fy q) s) / (?n * ?c) = ?my"
    using cpos by (simp add: wsum)
  have cov: "sum_list (map (\<lambda>q. ?w q * (?fx q - ?mx) * (?fy q - ?my)) s) / (?n * ?c) = ?sxy / ?n"
    using cpos wsum[of "\<lambda>q. (?fx q - ?mx) * (?fy q - ?my)"] by (simp add: mult.assoc)
  have vx: "sum_list (map (\<lambda>q. ?w q * (?fx q - ?mx)\<^sup>2) s) / (?n * ?c) = ?sxx / ?n"
    using cpos by (simp add: wsum)
  have vy: "sum_list (map (\<lambda>q. ?w q * (?fy q - ?my)\<^sup>2) s) / (?n * ?c) = ?syy / ?n"
    using cpos by (simp add: wsum)
  have wc: "weighted_correlation_of s =
              (if 0 < ?sxx / ?n \<and> 0 < ?syy / ?n
               then Some ((?sxy / ?n) / sqrt ((?sxx / ?n) * (?syy / ?n))) else None)"
    using n Wpos unfolding weighted_correlation_of_def Let_def W xm ym cov vx vy by simp
  have xx: "0 \<le> ?sxx" and yy: "0 \<le> ?syy" by (rule sum_list_nonneg, auto)+
  have pos_iff: "(0 < ?sxx / ?n \<and> 0 < ?syy / ?n) \<longleftrightarrow> sqrt (?sxx * ?syy) \<noteq> 0"
  proof -
    have "(0 < ?sxx / ?n \<and> 0 < ?syy / ?n) \<longleftrightarrow> (?sxx \<noteq> 0 \<and> ?syy \<noteq> 0)"
      using npos xx yy by (auto simp: zero_less_divide_iff)
    then show ?thesis by simp
  qed
  have quot: "(?sxy / ?n) / sqrt ((?sxx / ?n) * (?syy / ?n)) = ?sxy / sqrt (?sxx * ?syy)"
  proof -
    have "(?sxx / ?n) * (?syy / ?n) = (?sxx * ?syy) / ?n\<^sup>2" by (simp add: power2_eq_square)
    then have "sqrt ((?sxx / ?n) * (?syy / ?n)) = sqrt (?sxx * ?syy) / ?n"
      using npos by (simp add: real_sqrt_divide)
    then show ?thesis using npos by simp
  qed
  show ?thesis
    unfolding wc pearson_columns Let_def using pos_iff quot by simp
qed

text \<open>
  C5. When at least two categories are summarised and all of them have the same positive
  sample size, the weighted correlation equals the unweighted Pearson coefficient of the
  two columns whenever that is a number, and is undefined (\<open>None\<close>) where the unweighted one
  is undefined (NaN).
\<close>

theorem uniform_weights_correlation:
  assumes run: "employment_salary_tradeoff polyfit csv year_start year_end categories
                  min_sample_size add_trendline = Inr res"
    and n: "2 \<le> length (summary res)"
    and w: "\<forall>q \<in> set (summary res). category_sample_size q = c"
    and c: "0 < c"
  shows "correlation res = Some (pearson (map avg_employment_rate (summary res))
                                         (map avg_median_salary (summary res))) \<and>
         (\<forall>r. correlation res = Some (Fin r) \<longrightarrow> correlation_weighted res = Some r) \<and>
         (correlation res = Some NaN \<longrightarrow> correlation_weighted res = None)"
proof -
  from tradeoff_Inr[OF run] obtain df s where
    s: "summary res = label_quadrants s" and
    co: "correlation res = correlation_of s" and
    cw: "correlation_weighted res = weighted_correlation_of s" by blast
  have len: "2 \<le> length s" using n by (simp add: s label_quadrants_columns)
  have "map category_sample_size s = map category_sample_size (summary res)"
    by (simp add: s label_quadrants_columns)
  then have "set (map category_sample_size s) = set (map category_sample_size (summary res))"
    by simp
  then have ws: "\<forall>q \<in> set s. category_sample_size q = c" using w by auto
  have p: "correlation res = Some (pearson (map avg_employment_rate s) (map avg_median_salary s))"
    using len by (simp add: co correlation_of_def)
  show ?thesis
    using p weighted_correlation_uniform[OF len ws c]
    by (auto simp: cw s label_quadrants_columns)
qed

text \<open>
  The call returns whenever loading and summarising do, the summary has a row, the fit
  returns and the years of the rows used can be reported.
\<close>

lemma tradeoff_runs:
  assumes "load_data_tradeoff csv year_start year_end categories = Inr df"
    and "build_summary df min_sample_size = Inr s"
    and "s \<noteq> []"
    and "polyfit (map avg_employment_rate s) (map avg_median_salary s) = Inr (a, b)"
    and "meta_years (tradeoff_rows df) = Inr (lo, hi)"
  shows "\<exists>res. employment_salary_tradeoff polyfit csv year_start year_end categories
                  min_sample_size add_trendline = Inr res \<and>
               summary res = label_quadrants s \<and>
               correlation res = correlation_of s \<and>
               correlation_weighted res = weighted_correlation_of s \<and>
               year_min res = lo \<and> year_max res = hi"
  using assms
  by (simp add: employment_salary_tradeoff_def draw_chart_def trendline_of_def residuals_of_def
      Let_def)

text \<open>The definitions a concrete run of the summary unfolds.\<close>

lemmas tradeoff_eval_defs = load_data_tradeoff_def filter_year_start_def filter_year_end_def
  filter_isin_def build_summary_def tradeoff_rows_def dropna_def select_rows_def cell_of_def
  is_text_def names_of_def numbers_def List.map_filter_def summarise_category_def
  category_rows_def pd_std_def survey_row_def survey_columns_def Let_def

lemma tradeoff_example_load: "load_data_tradeoff tradeoff_example None None None = Inr tradeoff_example"
  by (simp add: tradeoff_eval_defs)

lemma tradeoff_example_build: "build_summary tradeoff_example 1 = Inr tradeoff_example_summary"
  by (simp add: tradeoff_eval_defs tradeoff_example_def tradeoff_example_summary_def)

lemma tradeoff_example_fit: "least_squares [1, 2] [2, 1] = Inr (- 1, 3)"
  by (simp add: least_squares_def Let_def power2_eq_square)

lemma sqrt_quarter: "sqrt (1 / 4) = 1 / 2"
  by (rule real_sqrt_unique) (simp_all add: power2_eq_square)

lemma tradeoff_example_pearson: "pearson [1, 2] [2, 1] = Fin (- 1)"
  by (simp add: pearson_def Let_def power2_eq_square sqrt_quarter)

lemma tradeoff_example_years:
  "meta_years (tradeoff_rows tradeoff_example) = Inr (Some 2020, Some 2020)"
  by (simp add: meta_years_def int_trunc_def tradeoff_eval_defs tradeoff_example_def)

lemma tradeoff_example_run:
  "\<exists>res. employment_salary_tradeoff least_squares tradeoff_example None None None 1 True = Inr res \<and>
         summary res = label_quadrants tradeoff_example_summary \<and>
         correlation res = correlation_of tradeoff_example_summary \<and>
         correlation_weighted res = weighted_correlation_of tradeoff_example_summary \<and>
         year_min res = Some 2020 \<and> year_max res = Some 2020"
proof -
  have ne: "tradeoff_example_summary \<noteq> []" by (simp add: tradeoff_example_summary_def)
  have fit: "least_squares (map avg_employment_rate tradeoff_example_summary)
               (map avg_median_salary tradeoff_example_summary) = Inr (- 1, 3)"
    using tradeoff_example_fit by (simp add: tradeoff_example_summary_def)
  from tradeoff_runs[where polyfit = least_squares, OF tradeoff_example_load
      tradeoff_example_build ne fit tradeoff_example_years, of True]
  show ?thesis .
qed



lemma flat_example_fit: "least_squares [1, 2] [2, 2] = Inr (0, 2)"
  by (simp add: least_squares_def Let_def power2_eq_square)



text \<open>
  Whether the call returns depends on the steps after the trend line too: on the same two
  records without their years the trend-line step returns as before, and the call ends in
  the error of \<^verbatim>\<open>int(df["year"].min())\<close>.
\<close>

lemma no_year_example_raises:
  "build_summary no_year_example 1 = Inr flat_example_summary \<and>
   employment_salary_tradeoff least_squares no_year_example None None None 1 True
     = Inl (ValueError ''cannot convert float NaN to integer'' [])"
proof -
  have l: "load_data_tradeoff no_year_example None None None = Inr no_year_example"
    by (simp add: tradeoff_eval_defs)
  have b: "build_summary no_year_example 1 = Inr flat_example_summary"
    by (simp add: tradeoff_eval_defs no_year_example_def flat_example_summary_def)
  have m: "meta_years (tradeoff_rows no_year_example)
           = Inl (ValueError ''cannot convert float NaN to integer'' [])"
    by (simp add: meta_years_def tradeoff_eval_defs no_year_example_def)
  have fit: "least_squares (map avg_employment_rate flat_example_summary)
               (map avg_median_salary flat_example_summary) = Inr (0, 2)"
    using flat_example_fit by (simp add: flat_example_summary_def)
  have d: "draw_chart flat_example_summary = Inr ()"
    by (simp add: draw_chart_def flat_example_summary_def)
  have n: "2 \<le> length flat_example_summary" by (simp add: flat_example_summary_def)
  show ?thesis
    using l b m fit d n
    by (simp add: employment_salary_tradeoff_def trendline_of_def residuals_of_def Let_def)
qed

theorem uniform_weights_correlation_witness:
  "\<exists>res. employment_salary_tradeoff least_squares tradeoff_example None None None 1 True = Inr res \<and>
         map category_sample_size (summary res) = [1, 1] \<and>
         correlation res = Some (Fin (- 1)) \<and> correlation_weighted res = Some (- 1)"
proof -
  from tradeoff_example_run
  obtain res where
    run: "employment_salary_tradeoff least_squares tradeoff_example None None None 1 True = Inr res"
    and s: "summary res = label_quadrants tradeoff_example_summary"
    by force
  have xs: "map avg_employment_rate (summary res) = map avg_employment_rate tradeoff_example_summary"
    and ys: "map avg_median_salary (summary res) = map avg_median_salary tradeoff_example_summary"
    by (simp_all add: s label_quadrants_columns)
  have sizes: "map category_sample_size (summary res) = [1, 1]"
    by (simp add: s label_quadrants_columns tradeoff_example_summary_def)
  have len: "2 \<le> length (summary res)"
    by (simp add: s label_quadrants_columns tradeoff_example_summary_def)
  have w: "\<forall>q \<in> set (summary res). category_sample_size q = 1"
  proof
    fix q assume "q \<in> set (summary res)"
    then have "category_sample_size q \<in> set (map category_sample_size (summary res))"
      by (simp only: set_map) (rule imageI)
    then show "category_sample_size q = 1" by (simp add: sizes)
  qed
  have p: "pearson (map avg_employment_rate (summary res)) (map avg_median_salary (summary res))
           = Fin (- 1)"
    unfolding xs ys using tradeoff_example_pearson by (simp add: tradeoff_example_summary_def)
  from uniform_weights_correlation[OF run len w] p
  have "correlation res = Some (Fin (- 1)) \<and> correlation_weighted res = Some (- 1)" by simp
  with run sizes show ?thesis by (intro exI[of _ res]) simp
qed

lemma fge_Fin: "fge (Fin a) (Fin b) \<longleftrightarrow> b \<le> a"
  by (simp add: not_less)

lemma length_filter_mset_eq:
  assumes "mset xs = mset ys"
  shows "length (filter P xs) = length (filter P ys)"
proof -
  have "mset (filter P xs) = mset (filter P ys)" using assms by (metis mset_filter)
  then show ?thesis by (rule mset_eq_length)
qed

text \<open>The median of a sorted list, as a number, and the index of its upper middle element.\<close>

lemma pd_median_sorted:
  fixes vals :: "real list"
  assumes "vals \<noteq> []"
  defines "s \<equiv> sort vals" and "k \<equiv> length vals div 2"
  shows "\<exists>m. pd_median vals = Fin m \<and> m \<le> s ! k \<and>
             (\<forall>i < k. s ! i \<le> m) \<and> (distinct vals \<longrightarrow> (\<forall>i < k. s ! i < m))"
proof -
  let ?n = "length vals"
  have len: "length s = ?n" by (simp add: s_def)
  have npos: "0 < ?n" using assms(1) by simp
  have sne: "sort vals \<noteq> []" using assms(1) by (metis length_sort length_0_conv)
  have kn: "k < ?n" using npos by (simp add: k_def)
  have srt: "sorted s" by (simp add: s_def)
  have mono: "s ! i \<le> s ! j" if "i \<le> j" "j < ?n" for i j
    using srt that len by (simp add: sorted_nth_mono)
  have strict: "s ! i < s ! j" if "distinct vals" "i < j" "j < ?n" for i j
  proof -
    have "distinct s" using that(1) by (simp add: s_def)
    then have "s ! i \<noteq> s ! j" using that(2,3) len by (simp add: nth_eq_iff_index_eq)
    moreover have "s ! i \<le> s ! j" using that by (intro mono) simp_all
    ultimately show ?thesis by simp
  qed
  show ?thesis
  proof (cases "odd ?n")
    case True
    then have m: "pd_median vals = Fin (s ! k)"
      using npos sne by (simp add: pd_median_def Let_def s_def k_def)
    show ?thesis
    proof (intro exI conjI allI impI)
      show "pd_median vals = Fin (s ! k)" by (rule m)
      show "s ! k \<le> s ! k" by simp
      show "s ! i \<le> s ! k" if "i < k" for i using that kn by (intro mono) simp_all
      show "s ! i < s ! k" if "distinct vals" "i < k" for i using that kn by (intro strict)
    qed
  next
    case False
    then have kpos: "0 < k" using npos unfolding k_def by presburger
    let ?m = "(s ! (k - 1) + s ! k) / 2"
    from False have m: "pd_median vals = Fin ?m"
      using npos sne by (simp add: pd_median_def Let_def s_def k_def)
    have lo: "s ! (k - 1) \<le> s ! k" using kn by (intro mono) simp_all
    show ?thesis
    proof (intro exI conjI allI impI)
      show "pd_median vals = Fin ?m" by (rule m)
      show "?m \<le> s ! k" using lo by simp
      show "s ! i \<le> ?m" if "i < k" for i
      proof -
        have "s ! i \<le> s ! (k - 1)" using that kn by (intro mono) simp_all
        with lo show ?thesis by simp
      qed
      show "s ! i < ?m" if "distinct vals" "i < k" for i
      proof -
        have "s ! i \<le> s ! (k - 1)" using that kn by (intro mono) simp_all
        moreover have "s ! (k - 1) < s ! k" using that(1) kpos kn by (intro strict) simp_all
        ultimately show ?thesis by simp
      qed
    qed
  qed
qed

lemma median_split:
  fixes vals :: "real list"
  assumes "vals \<noteq> []"
  shows "(length vals + 1) div 2 \<le> length (filter (\<lambda>v. fge (Fin v) (pd_median vals)) vals)"
    and "distinct vals \<Longrightarrow>
         length (filter (\<lambda>v. fge (Fin v) (pd_median vals)) vals) = (length vals + 1) div 2"
proof -
  let ?n = "length vals"
  define s where "s = sort vals"
  define k where "k = ?n div 2"
  from pd_median_sorted[OF assms] obtain m where
    m: "pd_median vals = Fin m" and up: "m \<le> s ! k"
    and strict: "distinct vals \<longrightarrow> (\<forall>i < k. s ! i < m)"
    unfolding s_def k_def by blast
  have len: "length s = ?n" by (simp add: s_def)
  have srt: "sorted s" by (simp add: s_def)
  have kn: "k < ?n" using assms by (simp add: k_def)
  let ?P = "\<lambda>v. fge (Fin v) (pd_median vals)"
  have P: "?P v \<longleftrightarrow> m \<le> v" for v unfolding m by (rule fge_Fin)
  have cnt: "length (filter ?P vals) = length (filter ?P s)"
    by (rule length_filter_mset_eq) (simp add: s_def)
  have split: "filter ?P s = filter ?P (take k s) @ filter ?P (drop k s)"
    by (metis append_take_drop_id filter_append)
  have upper: "filter ?P (drop k s) = drop k s"
  proof -
    have "m \<le> v" if "v \<in> set (drop k s)" for v
    proof -
      from that obtain j where j: "j < length (drop k s)" "v = drop k s ! j"
        by (auto simp: in_set_conv_nth)
      then have "v = s ! (k + j)" and "k + j < ?n" using len by simp_all
      then have "s ! k \<le> v" using srt len by (simp add: sorted_nth_mono)
      with up show ?thesis by simp
    qed
    then show ?thesis by (simp add: filter_id_conv P)
  qed
  have nk: "?n - k = (?n + 1) div 2" unfolding k_def by presburger
  have total: "length (filter ?P vals) = length (filter ?P (take k s)) + (?n + 1) div 2"
    unfolding cnt split upper using len nk by simp
  show "(?n + 1) div 2 \<le> length (filter ?P vals)" using total by simp
  show "length (filter ?P vals) = (?n + 1) div 2" if "distinct vals"
  proof -
    have "\<not> m \<le> v" if "v \<in> set (take k s)" for v
    proof -
      from that obtain i where i: "i < length (take k s)" "v = take k s ! i"
        by (auto simp: in_set_conv_nth)
      then have "i < k" "v = s ! i" by simp_all
      with strict \<open>distinct vals\<close> show ?thesis by (simp add: not_le)
    qed
    then have "filter ?P (take k s) = []" by (simp add: filter_empty_conv P)
    with total show ?thesis by simp
  qed
qed

lemma level_High: "level v med = ''High'' \<longleftrightarrow> fge (Fin v) med"
  by (simp add: level_def)

lemma high_count:
  "length (filter (\<lambda>q. level (f q) med = ''High'') s)
   = length (filter (\<lambda>v. fge (Fin v) med) (map f s))"
  by (simp add: level_High filter_map comp_def)

lemma label_quadrants_levels:
  assumes "s \<noteq> []"
  shows "length (filter (\<lambda>q. salary_level q = ''High'') (label_quadrants s))
         = length (filter (\<lambda>v. fge (Fin v) (pd_median (map avg_median_salary s)))
                     (map avg_median_salary s))"
    and "length (filter (\<lambda>q. employment_level q = ''High'') (label_quadrants s))
         = length (filter (\<lambda>v. fge (Fin v) (pd_median (map avg_employment_rate s)))
                     (map avg_employment_rate s))"
  using assms by (simp_all add: label_quadrants_def filter_map comp_def high_count)

text \<open>
  C6, as amended. For a non-empty summary of \<open>n\<close> categories the label High goes, on each
  axis, to at least \<open>ceil(n/2)\<close> of them (so never to none), and to exactly \<open>ceil(n/2)\<close> when
  the values on that axis are pairwise distinct. With ties at or above the median more
  categories are High, up to all of them.
\<close>

theorem quadrant_median_split:
  assumes run: "employment_salary_tradeoff polyfit csv year_start year_end categories
                  min_sample_size add_trendline = Inr res"
    and ne: "summary res \<noteq> []"
  shows "(length (summary res) + 1) div 2
           \<le> length (filter (\<lambda>q. salary_level q = ''High'') (summary res)) \<and>
         (distinct (map avg_median_salary (summary res)) \<longrightarrow>
            length (filter (\<lambda>q. salary_level q = ''High'') (summary res))
              = (length (summary res) + 1) div 2) \<and>
         (length (summary res) + 1) div 2
           \<le> length (filter (\<lambda>q. employment_level q = ''High'') (summary res)) \<and>
         (distinct (map avg_employment_rate (summary res)) \<longrightarrow>
            length (filter (\<lambda>q. employment_level q = ''High'') (summary res))
              = (length (summary res) + 1) div 2)"
proof -
  from tradeoff_Inr[OF run] obtain df s where s: "summary res = label_quadrants s" by blast
  have sne: "s \<noteq> []" using ne by (auto simp: s label_quadrants_def)
  have sal: "map avg_median_salary s \<noteq> []" and emp: "map avg_employment_rate s \<noteq> []"
    using sne by simp_all
  note lv = label_quadrants_levels[OF sne]
  note cols = label_quadrants_columns[of s]
  show ?thesis
    unfolding s lv cols
    using median_split[OF sal] median_split[OF emp] by simp
qed

lemma quadrant_example_load: "load_data_tradeoff quadrant_example None None None = Inr quadrant_example"
  by (simp add: tradeoff_eval_defs)

lemma quadrant_example_build: "build_summary quadrant_example 1 = Inr quadrant_example_summary"
  by (simp add: tradeoff_eval_defs quadrant_example_def quadrant_example_summary_def)

lemma quadrant_example_levels:
  "map avg_median_salary (label_quadrants quadrant_example_summary) = [2, 1, 1]"
  "map salary_level (label_quadrants quadrant_example_summary) = [''High'', ''High'', ''High'']"
  by (simp_all add: quadrant_example_summary_def label_quadrants_def label_row_def level_def
      pd_median_def Let_def)

text \<open>
  C6 as stated fails: the salaries 2, 1, 1 have median 1, so all three categories are High
  on the salary axis, which is neither \<open>ceil(3/2)\<close> nor \<open>floor(3/2)\<close>, although the values are
  not all tied.
\<close>

theorem quadrant_median_split_counterexample:
  "\<not> isl (employment_salary_tradeoff least_squares quadrant_example None None None 1 True) \<and>
   map avg_median_salary
     (summary (projr (employment_salary_tradeoff least_squares quadrant_example None None None 1 True)))
     = [2, 1, 1] \<and>
   map salary_level
     (summary (projr (employment_salary_tradeoff least_squares quadrant_example None None None 1 True)))
     = [''High'', ''High'', ''High'']"
proof -
  have "\<exists>a b. least_squares (map avg_employment_rate quadrant_example_summary)
                 (map avg_median_salary quadrant_example_summary) = Inr (a, b)"
    by (simp add: least_squares_def Let_def)
  then obtain a b where fit: "least_squares (map avg_employment_rate quadrant_example_summary)
                 (map avg_median_salary quadrant_example_summary) = Inr (a, b)" by blast
  have ne: "quadrant_example_summary \<noteq> []" by (simp add: quadrant_example_summary_def)
  have years: "meta_years (tradeoff_rows quadrant_example) = Inr (Some 2020, Some 2020)"
    by (simp add: meta_years_def int_trunc_def tradeoff_eval_defs quadrant_example_def)
  from tradeoff_runs[where polyfit = least_squares, OF quadrant_example_load
      quadrant_example_build ne fit years, of True]
  obtain res where
    "employment_salary_tradeoff least_squares quadrant_example None None None 1 True = Inr res"
    and "summary res = label_quadrants quadrant_example_summary" by blast
  then show ?thesis by (simp add: quadrant_example_levels)
qed

theorem quadrant_median_split_witness:
  "\<exists>res. employment_salary_tradeoff least_squares tradeoff_example None None None 1 True = Inr res \<and>
         length (summary res) = 2 \<and>
         map avg_median_salary (summary res) = [2, 1] \<and>
         length (filter (\<lambda>q. salary_level q = ''High'') (summary res)) = 1 \<and>
         map avg_employment_rate (summary res) = [1, 2] \<and>
         length (filter (\<lambda>q. employment_level q = ''High'') (summary res)) = 1"
proof -
  from tradeoff_example_run
  obtain res where
    run: "employment_salary_tradeoff least_squares tradeoff_example None None None 1 True = Inr res"
    and s: "summary res = label_quadrants tradeoff_example_summary"
    by force
  have len: "length (summary res) = 2"
    and sal: "map avg_median_salary (summary res) = [2, 1]"
    and emp: "map avg_employment_rate (summary res) = [1, 2]"
    by (simp_all add: s label_quadrants_columns tradeoff_example_summary_def)
  have ne: "summary res \<noteq> []" using len by auto
  have d: "distinct (map avg_median_salary (summary res))"
    "distinct (map avg_employment_rate (summary res))"
    by (simp_all add: sal emp)
  from quadrant_median_split[OF run ne] d
  have "length (filter (\<lambda>q. salary_level q = ''High'') (summary res)) = 1"
    and "length (filter (\<lambda>q. employment_level q = ''High'') (summary res)) = 1"
    by (simp_all add: len)
  with run len sal emp show ?thesis by (intro exI[of _ res]) simp
qed

lemma names_of_member:
  assumes "c \<in> set (names_of col rs)"
  shows "\<exists>r \<in> set rs. cell_of r col = Str c"
  using assms by (auto simp: names_of_def List.map_filter_def split: cell.splits)

lemma build_summary_rows:
  assumes "build_summary df min_sample_size = Inr s" and "r \<in> set s"
  shows "\<exists>c. r = summarise_category (tradeoff_rows df) c \<and>
             category_rows (tradeoff_rows df) c \<noteq> [] \<and>
             (\<forall>x \<in> set (tradeoff_rows df).
                 (\<exists>e. cell_of x ''employment_rate_overall'' = Num e) \<and>
                 (\<exists>v. cell_of x ''gross_monthly_median'' = Num v))"
proof -
  let ?rs = "tradeoff_rows df"
  let ?summary = "map (summarise_category ?rs) (sort (remdups (names_of ''course_category'' ?rs)))"
  from assms(1) have nt: "\<not> list_ex (\<lambda>r. is_text (cell_of r ''employment_rate_overall'') \<or>
                                  is_text (cell_of r ''gross_monthly_median'')) ?rs"
    and s: "s = sort_key (\<lambda>s. - avg_median_salary s)
                  (if 0 < min_sample_size
                   then filter (\<lambda>s. min_sample_size \<le> int (category_sample_size s)) ?summary
                   else ?summary)"
    by (auto simp: build_summary_def Let_def split: if_splits)
  from assms(2) s have "r \<in> set ?summary" by (auto split: if_splits)
  then obtain c where c: "c \<in> set (names_of ''course_category'' ?rs)"
    and r: "r = summarise_category ?rs c" by auto
  from names_of_member[OF c] have ne: "category_rows ?rs c \<noteq> []"
    by (auto simp: category_rows_def filter_empty_conv)
  have num: "(\<exists>e. cell_of x ''employment_rate_overall'' = Num e) \<and>
             (\<exists>v. cell_of x ''gross_monthly_median'' = Num v)" if "x \<in> set ?rs" for x
  proof -
    from that nt have "\<not> is_text (cell_of x ''employment_rate_overall'')"
      "\<not> is_text (cell_of x ''gross_monthly_median'')"
      by (auto simp: list_ex_iff)
    moreover from that have "cell_of x ''employment_rate_overall'' \<noteq> Null"
      "cell_of x ''gross_monthly_median'' \<noteq> Null"
      by (auto simp: tradeoff_rows_def rows_dropna)
    ultimately show ?thesis
      by (cases "cell_of x ''employment_rate_overall''"; cases "cell_of x ''gross_monthly_median''")
        (auto simp: is_text_def)
  qed
  show ?thesis using r ne num by blast
qed

lemma pd_std_cases:
  "2 \<le> length v \<Longrightarrow>
     pd_std v = Fin (sqrt (sum_list (map (\<lambda>x. (x - sum_list v / real (length v))\<^sup>2) v)
                           / (real (length v) - 1)))"
  "length v = 1 \<Longrightarrow> pd_std v = NaN"
  by (simp_all add: pd_std_def Let_def)

text \<open>
  C4, as amended. Every row of the summary belongs to a category with at least one record,
  each record contributing one employment rate and one salary. Its means are the arithmetic
  means over those records, and its two standard deviations are the sample standard
  deviations, with divisor one less than the number of records, when there are at least
  two records, and NaN when there is one.
\<close>

theorem summary_std_sample:
  assumes l: "load_data_tradeoff csv year_start year_end categories = Inr df"
    and run: "employment_salary_tradeoff polyfit csv year_start year_end categories
                min_sample_size add_trendline = Inr res"
    and q: "q \<in> set (summary res)"
  shows "let members = category_rows (tradeoff_rows df) (course_category q);
             e = numbers ''employment_rate_overall'' members;
             s = numbers ''gross_monthly_median'' members
         in members \<noteq> [] \<and> length e = length members \<and> length s = length members \<and>
            avg_employment_rate q = sum_list e / real (length e) \<and>
            avg_median_salary q = sum_list s / real (length s) \<and>
            (2 \<le> length members \<longrightarrow>
               employment_rate_std q =
                 Fin (sqrt (sum_list (map (\<lambda>x. (x - avg_employment_rate q)\<^sup>2) e)
                            / (real (length members) - 1))) \<and>
               median_salary_std q =
                 Fin (sqrt (sum_list (map (\<lambda>x. (x - avg_median_salary q)\<^sup>2) s)
                            / (real (length members) - 1)))) \<and>
            (length members = 1 \<longrightarrow> employment_rate_std q = NaN \<and> median_salary_std q = NaN)"
proof -
  from tradeoff_Inr[OF run] l obtain s0 where
    b: "build_summary df min_sample_size = Inr s0" and s: "summary res = label_quadrants s0"
    by auto
  from q s obtain r where r: "r \<in> set s0"
    and fields: "course_category q = course_category r"
      "avg_employment_rate q = avg_employment_rate r" "avg_median_salary q = avg_median_salary r"
      "employment_rate_std q = employment_rate_std r" "median_salary_std q = median_salary_std r"
    by (auto simp: label_quadrants_def split: if_splits)
  from build_summary_rows[OF b r] obtain c where
    rc: "r = summarise_category (tradeoff_rows df) c"
    and ne: "category_rows (tradeoff_rows df) c \<noteq> []"
    and num: "\<forall>x \<in> set (tradeoff_rows df).
                 (\<exists>e. cell_of x ''employment_rate_overall'' = Num e) \<and>
                 (\<exists>v. cell_of x ''gross_monthly_median'' = Num v)"
    by blast
  have cq: "course_category q = c" by (simp add: fields rc summarise_category_def Let_def)
  let ?members = "category_rows (tradeoff_rows df) c"
  let ?e = "numbers ''employment_rate_overall'' ?members"
  let ?s = "numbers ''gross_monthly_median'' ?members"
  have sub: "set ?members \<subseteq> set (tradeoff_rows df)" by (auto simp: category_rows_def)
  have le: "length ?e = length ?members"
    using num sub by (intro length_numbers_all_num) blast
  have ls: "length ?s = length ?members"
    using num sub by (intro length_numbers_all_num) blast
  have ae: "avg_employment_rate q = sum_list ?e / real (length ?e)"
    and as: "avg_median_salary q = sum_list ?s / real (length ?s)"
    and se: "employment_rate_std q = pd_std ?e" and ss: "median_salary_std q = pd_std ?s"
    by (simp_all add: fields rc summarise_category_def Let_def)
  show ?thesis
    unfolding Let_def cq
    using ne le ls ae as se ss pd_std_cases[of ?e] pd_std_cases[of ?s]
    by (auto simp: le ls)
qed

lemma std_example_load: "load_data_tradeoff std_example None None None = Inr std_example"
  by (simp add: tradeoff_eval_defs)

lemma std_example_build: "build_summary std_example 1 = Inr std_example_summary"
  by (simp add: tradeoff_eval_defs std_example_def std_example_summary_def power2_eq_square)

lemma sqrt_2_not_1: "sqrt 2 \<noteq> 1"
proof
  assume "sqrt 2 = 1"
  then have "(sqrt 2)\<^sup>2 = 1\<^sup>2" by simp
  then show False by simp
qed

lemma std_example_run:
  "\<exists>res. employment_salary_tradeoff least_squares std_example None None None 1 True = Inr res \<and>
         summary res = label_quadrants std_example_summary"
proof -
  have ne: "std_example_summary \<noteq> []" by (simp add: std_example_summary_def)
  have years: "meta_years (tradeoff_rows std_example) = Inr (Some 2020, Some 2020)"
    by (simp add: meta_years_def int_trunc_def tradeoff_eval_defs std_example_def)
  have "\<exists>a b. least_squares (map avg_employment_rate std_example_summary)
                 (map avg_median_salary std_example_summary) = Inr (a, b)"
    by (simp add: least_squares_def Let_def)
  then obtain a b where fit: "least_squares (map avg_employment_rate std_example_summary)
                 (map avg_median_salary std_example_summary) = Inr (a, b)" by blast
  from tradeoff_runs[where polyfit = least_squares, OF std_example_load std_example_build ne
      fit years, of True]
  show ?thesis by blast
qed

text \<open>
  C4 as stated fails: for the two employment rates 1 and 3 the summary reports the square
  root of 2, the deviation with divisor 1; the population standard deviation, with
  divisor 2, is 1.
\<close>

theorem summary_std_sample_counterexample:
  "\<not> isl (employment_salary_tradeoff least_squares std_example None None None 1 True) \<and>
   map category_sample_size
     (summary (projr (employment_salary_tradeoff least_squares std_example None None None 1 True)))
     = [2] \<and>
   map employment_rate_std
     (summary (projr (employment_salary_tradeoff least_squares std_example None None None 1 True)))
     = [Fin (sqrt 2)] \<and>
   numbers ''employment_rate_overall'' (category_rows (tradeoff_rows std_example) ''A'') = [1, 3] \<and>
   np_std [1, 3] = Fin 1 \<and> sqrt 2 \<noteq> 1"
proof -
  from std_example_run obtain res where
    "employment_salary_tradeoff least_squares std_example None None None 1 True = Inr res"
    and "summary res = label_quadrants std_example_summary" by blast
  moreover have "numbers ''employment_rate_overall'' (category_rows (tradeoff_rows std_example) ''A'')
                 = [1, 3]"
    by (simp add: tradeoff_eval_defs std_example_def)
  moreover have "np_std [1, 3] = Fin 1" by (simp add: np_std_def Let_def power2_eq_square)
  ultimately show ?thesis
    using sqrt_2_not_1
    by (simp add: label_quadrants_columns label_quadrants_def std_example_summary_def)
qed

theorem summary_std_sample_witness:
  "load_data_tradeoff std_example None None None = Inr std_example \<and>
   (\<exists>res q. employment_salary_tradeoff least_squares std_example None None None 1 True = Inr res \<and>
            q \<in> set (summary res) \<and> course_category q = ''A'' \<and>
            numbers ''employment_rate_overall'' (category_rows (tradeoff_rows std_example) ''A'')
              = [1, 3] \<and>
            avg_employment_rate q = 2 \<and>
            employment_rate_std q = Fin (sqrt (((1 - 2)\<^sup>2 + (3 - 2)\<^sup>2) / (2 - 1))))"
proof -
  from std_example_run obtain res where
    run: "employment_salary_tradeoff least_squares std_example None None None 1 True = Inr res"
    and s: "summary res = label_quadrants std_example_summary" by force
  define q where "q = hd (summary res)"
  have q: "q \<in> set (summary res)" and cq: "course_category q = ''A''"
    and aq: "avg_employment_rate q = 2"
    by (simp_all add: q_def s label_quadrants_def std_example_summary_def)
  have e: "numbers ''employment_rate_overall'' (category_rows (tradeoff_rows std_example) ''A'')
           = [1, 3]"
    by (simp add: tradeoff_eval_defs std_example_def)
  have m: "length (category_rows (tradeoff_rows std_example) ''A'') = 2"
    by (simp add: tradeoff_eval_defs std_example_def)
  from summary_std_sample[OF std_example_load run q]
  have "employment_rate_std q = Fin (sqrt (((1 - 2)\<^sup>2 + (3 - 2)\<^sup>2) / (2 - 1)))"
    unfolding Let_def cq e m aq by simp
  with std_example_load run q cq e aq show ?thesis by blast
qed

end
